theory Spec2Isabelle
  imports Main
begin

section \<open>The scan action of f2elint (src/actions/scan.ts)\<close>

text \<open>
  The action is one asynchronous function. It reads two configuration modules and two
  ignore files, optionally formats the project, runs three linters one after the other,
  each inside its own \<^verbatim>\<open>try/catch\<close>, optionally runs the formatter binary, optionally
  writes a report file, and returns a report.

  What the function imports from its own package and from libraries is a parameter of
  the model (the record \<open>env\<close> below): the constants of \<^verbatim>\<open>../utils/constants\<close>, the
  three lint adapters, \<^verbatim>\<open>glob\<close>, \<^verbatim>\<open>execa\<close>, \<^verbatim>\<open>require\<close>, \<^verbatim>\<open>path.resolve\<close> and
  \<^verbatim>\<open>JSON.stringify\<close>. What such a function may do to the outside (files, the event
  loop) is a transformation of the \<open>world\<close>; what it may throw is the \<open>Inl\<close> of a sum.
  The two calls of \<^verbatim>\<open>fs\<close> that the action makes itself (\<^verbatim>\<open>existsSync\<close>,
  \<^verbatim>\<open>readFileSync\<close>), \<^verbatim>\<open>path.extname\<close> and the string methods are modelled.
\<close>

subsection \<open>Values, errors, the world\<close>

text \<open>
  A JavaScript value as far as the toggles of the tools configuration need it.
  \<open>JObject\<close> stands for any object, array or function. Numbers are integers here
  (\<^verbatim>\<open>NaN\<close> left out).
\<close>

datatype jsval = JUndefined | JNull | JBool bool | JNum int | JStr string | JObject

text \<open>An object is a map from property names to values; a missing key reads \<^verbatim>\<open>undefined\<close>.\<close>

type_synonym jsobj = "string \<rightharpoonup> jsval"

definition get_prop :: "jsobj \<Rightarrow> string \<Rightarrow> jsval" where
  "get_prop obj k = (case obj k of None \<Rightarrow> JUndefined | Some v \<Rightarrow> v)"

text \<open>Truthiness, as \<^verbatim>\<open>&&\<close> and \<^verbatim>\<open>?:\<close> test it.\<close>

fun truthy :: "jsval \<Rightarrow> bool" where
  "truthy JUndefined = False"
| "truthy JNull = False"
| "truthy (JBool b) = b"
| "truthy (JNum n) = (n \<noteq> 0)"
| "truthy (JStr s) = (s \<noteq> [])"
| "truthy JObject = True"

text \<open>\<^verbatim>\<open>v !== false\<close>: strict inequality with the boolean false.\<close>

definition not_false :: "jsval \<Rightarrow> bool" where
  "not_false v = (v \<noteq> JBool False)"

text \<open>
  What is thrown. \<open>ENOENT\<close> and \<open>EISDIR\<close> are the two failures of
  \<^verbatim>\<open>fs.readFileSync\<close> the model of the file system can produce; \<open>Thrown\<close> is
  anything an imported function throws.
\<close>

datatype error = ENOENT string | EISDIR string | Thrown string

text \<open>
  The file system maps a path, as the code passes it to \<^verbatim>\<open>fs\<close>, to a file with its
  text or to a directory. Work that was started and not awaited sits in \<open>pending\<close>:
  the per-file formatting of the first pass (\<^verbatim>\<open>prettier.resolveConfig(..).then(..)\<close>)
  and the report write (\<^verbatim>\<open>fs.outputFile(.., () => {})\<close>). When it completes is up to
  the event loop, that is, to the imported functions that are awaited later.
\<close>

datatype node = File string | Dir

datatype job = FormatJob string string | OutputFile string string

record world =
  files :: "string \<rightharpoonup> node"
  pending :: "job list"

definition existsSync :: "world \<Rightarrow> string \<Rightarrow> bool" where
  "existsSync w p = (files w p \<noteq> None)"

definition readFileSync :: "world \<Rightarrow> string \<Rightarrow> error + string" where
  "readFileSync w p =
     (case files w p of
        None \<Rightarrow> Inl (ENOENT p)
      | Some Dir \<Rightarrow> Inl (EISDIR p)
      | Some (File s) \<Rightarrow> Inr s)"

subsection \<open>The types of ../types\<close>

text \<open>
  Modelled from the spec: the declarations of \<^verbatim>\<open>ScanOptions\<close>, \<^verbatim>\<open>ScanResult\<close> and
  \<^verbatim>\<open>ScanReport\<close> are in \<^verbatim>\<open>../types\<close>, which is not among the sources. The fields are
  the ones the action reads and the spec's data model lists. A result and a report both
  have the fields \<^verbatim>\<open>errorCount\<close> and \<^verbatim>\<open>warningCount\<close>, so these are written with the
  name of their record: \<open>ScanResult.errorCount\<close>, \<open>ScanReport.errorCount\<close>.
  \<open>include_root\<close> is the
  option \<^verbatim>\<open>include\<close>, \<open>fix_flag\<close> the option \<^verbatim>\<open>fix\<close>, \<open>lint_files\<close> the option
  \<^verbatim>\<open>files\<close> (the plain names are reserved words of Isabelle): \<open>None\<close> when it is
  undefined, and any array, also the empty one, is truthy.
\<close>

record ScanOptions =
  cwd :: string
  include_root :: string
  lint_files :: "string list option"
  quiet :: bool
  fix_flag :: bool
  outputReport :: bool

datatype severity = Error | Warning

record Finding =
  line :: int
  column :: int
  rule :: string
  message :: string
  level :: severity

record ScanResult =
  filePath :: string
  messages :: "Finding list"
  errorCount :: int
  warningCount :: int

record ScanReport =
  results :: "ScanResult list"
  errorCount :: int
  warningCount :: int
  runErrors :: "error list"

subsection \<open>Strings\<close>

text \<open>
  \<^verbatim>\<open>path.extname\<close> of Node (POSIX): the extension of the last path component, from
  its last dot; empty when there is no dot, when the only dot is the component's first
  character, and for the component \<^verbatim>\<open>..\<close>. Trailing slashes are skipped.
\<close>

definition basename_part :: "string \<Rightarrow> string" where
  "basename_part p =
     rev (takeWhile (\<lambda>c. c \<noteq> CHR ''/'') (dropWhile (\<lambda>c. c = CHR ''/'') (rev p)))"

definition path_extname :: "string \<Rightarrow> string" where
  "path_extname p =
     (let b = basename_part p;
          e = rev (takeWhile (\<lambda>c. c \<noteq> CHR ''.'') (rev b));
          stem = take (length b - length e - 1) b
      in if CHR ''.'' \<notin> set b \<or> stem = [] \<or> b = ''..'' then [] else CHR ''.'' # e)"

text \<open>\<^verbatim>\<open>t.replace(/^\./, '')\<close>: one leading dot removed.\<close>

fun strip_dot :: "string \<Rightarrow> string" where
  "strip_dot (c # cs) = (if c = CHR ''.'' then cs else c # cs)"
| "strip_dot [] = []"

text \<open>\<^verbatim>\<open>Array.prototype.join\<close>.\<close>

fun join :: "string \<Rightarrow> string list \<Rightarrow> string" where
  "join sep [] = []"
| "join sep [x] = x"
| "join sep (x # y # ys) = x @ sep @ join sep (y # ys)"

text \<open>\<^verbatim>\<open>content.split(/\r?\n/)\<close>: a line ends at LF or at CR LF; a lone CR stays.\<close>

fun split_lines :: "string \<Rightarrow> string list" where
  "split_lines [] = [[]]"
| "split_lines (c # cs) =
     (if c = CHR 0x0A then [] # split_lines cs
      else if c = CHR 0x0D \<and> cs \<noteq> [] \<and> hd cs = CHR 0x0A then [] # split_lines (tl cs)
      else (case split_lines cs of
              l # ls \<Rightarrow> (c # l) # ls
            | [] \<Rightarrow> [[c]]))"

text \<open>
  \<^verbatim>\<open>String.prototype.trim\<close>. A \<open>char\<close> is a code unit below 256; the white space
  and line terminators of JavaScript in that range are TAB, LF, VT, FF, CR, SP and
  NBSP. The ones above (U+FEFF, U+2028 and so on) are not representable here.
\<close>

definition is_space :: "char \<Rightarrow> bool" where
  "is_space c = (c \<in> {CHR 0x09, CHR 0x0A, CHR 0x0B, CHR 0x0C, CHR 0x0D, CHR 0x20, CHR 0xA0})"

definition trim :: "string \<Rightarrow> string" where
  "trim s = rev (dropWhile is_space (rev (dropWhile is_space s)))"

text \<open>\<^verbatim>\<open>str && !str.startsWith('#')\<close>: the filter of \<^verbatim>\<open>readIgnore\<close>.\<close>

fun keep_line :: "string \<Rightarrow> bool" where
  "keep_line [] = False"
| "keep_line (c # cs) = (c \<noteq> CHR ''#'')"

subsection \<open>What the action imports\<close>

text \<open>
  \<open>Pattern\<close> and \<open>Files\<close> are the two shapes of \<^verbatim>\<open>string | string[]\<close> that
  \<^verbatim>\<open>getLintFiles\<close> returns.
\<close>

datatype fileset = Pattern string | Files "string list"

text \<open>
  The constants of \<^verbatim>\<open>../utils/constants\<close> and every imported function. \<open>'cfg\<close> is
  what a \<^verbatim>\<open>getLintConfig\<close> returns and \<open>'raw\<close> what an engine returns. The call
  \<open>eslint_lintFiles\<close> stands for \<^verbatim>\<open>new eslint.ESLint(cfg)\<close> followed by
  \<^verbatim>\<open>cli.lintFiles(files)\<close>; \<open>stylelint_lint\<close> and \<open>markdownLint_lint\<close> receive the
  configuration and the files that the source merges into one object;
  \<open>stylelint_formatResults\<close> receives \<^verbatim>\<open>data.results\<close>. \<open>glob_sync pattern cwd ignore\<close>
  is \<^verbatim>\<open>glob.sync(pattern, {cwd, ignore})\<close>, \<open>JSON_stringify rs\<close> is
  \<^verbatim>\<open>JSON.stringify(rs, null, 2)\<close>, \<open>dirname\<close> is \<^verbatim>\<open>__dirname\<close>. A call that returns
  nothing of use (\<open>eslint_outputFixes\<close>, \<open>execa_sync\<close>) gives \<open>Some e\<close> when it throws
  \<open>e\<close> and \<open>None\<close> when it comes through.
\<close>

record ('cfg, 'raw) env =
  PKG_NAME :: string
  ESLINT_FILE_EXT :: "string list"
  STYLELINT_FILE_EXT :: "string list"
  MARKDOWN_LINT_FILE_EXT :: "string list"
  process_cwd :: string
  dirname :: string
  path_resolve :: "string list \<Rightarrow> string"
  require :: "string \<Rightarrow> world \<Rightarrow> error + jsobj"
  glob_sync :: "string \<Rightarrow> string \<Rightarrow> string list \<Rightarrow> world \<Rightarrow> error + string list"
  eslint_getLintConfig :: "ScanOptions \<Rightarrow> jsobj \<Rightarrow> jsobj \<Rightarrow> error + 'cfg"
  eslint_lintFiles :: "'cfg \<Rightarrow> fileset \<Rightarrow> world \<Rightarrow> (error + 'raw) \<times> world"
  eslint_outputFixes :: "'raw \<Rightarrow> world \<Rightarrow> error option \<times> world"
  eslint_formatResults :: "'raw \<Rightarrow> bool \<Rightarrow> error + ScanResult list"
  stylelint_getLintConfig :: "ScanOptions \<Rightarrow> jsobj \<Rightarrow> jsobj \<Rightarrow> error + 'cfg"
  stylelint_lint :: "'cfg \<Rightarrow> fileset \<Rightarrow> world \<Rightarrow> (error + 'raw) \<times> world"
  stylelint_formatResults :: "'raw \<Rightarrow> bool \<Rightarrow> error + ScanResult list"
  markdownLint_getLintConfig :: "ScanOptions \<Rightarrow> error + 'cfg"
  markdownLint_lint :: "'cfg \<Rightarrow> fileset \<Rightarrow> world \<Rightarrow> (error + 'raw) \<times> world"
  markdownLint_formatResults :: "'raw \<Rightarrow> bool \<Rightarrow> error + ScanResult list"
  execa_sync :: "string \<Rightarrow> string list \<Rightarrow> world \<Rightarrow> error option \<times> world"
  JSON_stringify :: "ScanResult list \<Rightarrow> string"

subsection \<open>The helpers of the action (lines 19 to 39)\<close>

text \<open>The glob of \<^verbatim>\<open>getLintFiles\<close>, which the last pass builds a second time (line 109).\<close>

definition ext_pattern :: "string list \<Rightarrow> string" where
  "ext_pattern ext = ''**/*.{'' @ join '','' (map strip_dot ext) @ ''}''"

definition getLintFiles :: "('cfg, 'raw) env \<Rightarrow> ScanOptions \<Rightarrow> string list \<Rightarrow> fileset" where
  "getLintFiles env options ext =
     (case lint_files options of
        Some fs \<Rightarrow> Files (filter (\<lambda>name. path_extname name \<in> set ext) fs)
      | None \<Rightarrow> Pattern (path_resolve env [cwd options, include_root options, ext_pattern ext]))"

definition readConfigFile :: "('cfg, 'raw) env \<Rightarrow> ScanOptions \<Rightarrow> string \<Rightarrow> world \<Rightarrow> error + jsobj" where
  "readConfigFile env options pth w =
     (let localPath = path_resolve env [cwd options, pth]
      in if existsSync w localPath then require env localPath w else Inr Map.empty)"

definition readIgnore :: "('cfg, 'raw) env \<Rightarrow> ScanOptions \<Rightarrow> string \<Rightarrow> world \<Rightarrow> error + string list" where
  "readIgnore env options filepath w =
     (let localPath = path_resolve env [cwd options, filepath]
      in if existsSync w localPath
         then (case readFileSync w localPath of
                 Inl e \<Rightarrow> Inl e
               | Inr content \<Rightarrow> Inr (filter keep_line (map trim (split_lines content))))
         else Inr [])"

subsection \<open>The passes (lines 47 to 117)\<close>

text \<open>
  What the model records of a pass that was entered: which pass, the glob it expanded
  (pattern, cwd, ignore list) if it expanded one, the file set it resolved (absent when
  the glob threw), and how the pass ended: with what it threw, or with the results it
  adds to \<^verbatim>\<open>results\<close> (none for the two formatting passes).
\<close>

datatype pass = PreFormat | ScriptLint | StyleLint | MarkdownLint | PostFormat

record event =
  ev_pass :: pass
  ev_glob :: "(string \<times> string \<times> string list) option"
  ev_files :: "fileset option"
  ev_outcome :: "error + ScanResult list"

text \<open>
  Lines 53 to 59: \<^verbatim>\<open>files.forEach\<close>. Each file is read at once, and a read that throws
  ends the loop; the formatting of the text is only started.
\<close>

fun schedule_format :: "string list \<Rightarrow> world \<Rightarrow> error option \<times> world" where
  "schedule_format [] w = (None, w)"
| "schedule_format (name # rest) w =
     (case readFileSync w name of
        Inl e \<Rightarrow> (Some e, w)
      | Inr txt \<Rightarrow> schedule_format rest (w\<lparr>pending := pending w @ [FormatJob name txt]\<rparr>))"

text \<open>Lines 49 to 59, the body of the first \<^verbatim>\<open>if\<close>. Nothing here is caught.\<close>

definition prettier_first ::
  "('cfg, 'raw) env \<Rightarrow> ScanOptions \<Rightarrow> string list \<Rightarrow> string list \<Rightarrow> world \<Rightarrow> event \<times> world" where
  "prettier_first env options eslintIgnore stylelintIgnore w =
     (case getLintFiles env options (ESLINT_FILE_EXT env @ STYLELINT_FILE_EXT env) of
        Pattern p \<Rightarrow>
          (let g = (p, cwd options, eslintIgnore @ stylelintIgnore)
           in case glob_sync env p (cwd options) (eslintIgnore @ stylelintIgnore) w of
                Inl e \<Rightarrow>
                  (\<lparr>ev_pass = PreFormat, ev_glob = Some g, ev_files = None, ev_outcome = Inl e\<rparr>, w)
              | Inr fs \<Rightarrow>
                  (case schedule_format fs w of
                     (Some e, w1) \<Rightarrow>
                       (\<lparr>ev_pass = PreFormat, ev_glob = Some g, ev_files = Some (Files fs),
                         ev_outcome = Inl e\<rparr>, w1)
                   | (None, w1) \<Rightarrow>
                       (\<lparr>ev_pass = PreFormat, ev_glob = Some g, ev_files = Some (Files fs),
                         ev_outcome = Inr []\<rparr>, w1)))
      | Files fs \<Rightarrow>
          (case schedule_format fs w of
             (Some e, w1) \<Rightarrow>
               (\<lparr>ev_pass = PreFormat, ev_glob = None, ev_files = Some (Files fs),
                 ev_outcome = Inl e\<rparr>, w1)
           | (None, w1) \<Rightarrow>
               (\<lparr>ev_pass = PreFormat, ev_glob = None, ev_files = Some (Files fs),
                 ev_outcome = Inr []\<rparr>, w1)))"

text \<open>Lines 64 to 68, the body of the first \<^verbatim>\<open>try\<close>.\<close>

definition eslint_try ::
  "('cfg, 'raw) env \<Rightarrow> ScanOptions \<Rightarrow> jsobj \<Rightarrow> jsobj \<Rightarrow> world \<Rightarrow> event \<times> world" where
  "eslint_try env options pkg config w =
     (let fs = getLintFiles env options (ESLINT_FILE_EXT env);
          ev = (\<lambda>out. \<lparr>ev_pass = ScriptLint, ev_glob = None, ev_files = Some fs, ev_outcome = out\<rparr>)
      in case eslint_getLintConfig env options pkg config of
           Inl e \<Rightarrow> (ev (Inl e), w)
         | Inr cfg \<Rightarrow>
             (case eslint_lintFiles env cfg fs w of
                (Inl e, w1) \<Rightarrow> (ev (Inl e), w1)
              | (Inr reports, w1) \<Rightarrow>
                  (case (if fix_flag options then eslint_outputFixes env reports w1
                         else (None, w1)) of
                     (Some e, w2) \<Rightarrow> (ev (Inl e), w2)
                   | (None, w2) \<Rightarrow>
                       (ev (eslint_formatResults env reports (quiet options)), w2))))"

text \<open>Lines 76 to 81.\<close>

definition stylelint_try ::
  "('cfg, 'raw) env \<Rightarrow> ScanOptions \<Rightarrow> jsobj \<Rightarrow> jsobj \<Rightarrow> world \<Rightarrow> event \<times> world" where
  "stylelint_try env options pkg config w =
     (let fs = getLintFiles env options (STYLELINT_FILE_EXT env);
          ev = (\<lambda>out. \<lparr>ev_pass = StyleLint, ev_glob = None, ev_files = Some fs, ev_outcome = out\<rparr>)
      in case stylelint_getLintConfig env options pkg config of
           Inl e \<Rightarrow> (ev (Inl e), w)
         | Inr cfg \<Rightarrow>
             (case stylelint_lint env cfg fs w of
                (Inl e, w1) \<Rightarrow> (ev (Inl e), w1)
              | (Inr data, w1) \<Rightarrow>
                  (ev (stylelint_formatResults env data (quiet options)), w1)))"

text \<open>
  Lines 90 to 97. With no file list the files are every \<^verbatim>\<open>**/*.md\<close> under \<^verbatim>\<open>cwd\<close>
  outside \<^verbatim>\<open>node_modules\<close>.
\<close>

definition markdown_run ::
  "('cfg, 'raw) env \<Rightarrow> ScanOptions \<Rightarrow> (string \<times> string \<times> string list) option \<Rightarrow> fileset \<Rightarrow>
     world \<Rightarrow> event \<times> world" where
  "markdown_run env options g fs w =
     (let ev = (\<lambda>out. \<lparr>ev_pass = MarkdownLint, ev_glob = g, ev_files = Some fs, ev_outcome = out\<rparr>)
      in case markdownLint_getLintConfig env options of
           Inl e \<Rightarrow> (ev (Inl e), w)
         | Inr cfg \<Rightarrow>
             (case markdownLint_lint env cfg fs w of
                (Inl e, w1) \<Rightarrow> (ev (Inl e), w1)
              | (Inr data, w1) \<Rightarrow>
                  (ev (markdownLint_formatResults env data (quiet options)), w1)))"

definition markdown_try :: "('cfg, 'raw) env \<Rightarrow> ScanOptions \<Rightarrow> world \<Rightarrow> event \<times> world" where
  "markdown_try env options w =
     (case lint_files options of
        Some given \<Rightarrow>
          markdown_run env options None (getLintFiles env options (MARKDOWN_LINT_FILE_EXT env)) w
      | None \<Rightarrow>
          (let g = (''**/*.md'', cwd options, [''node_modules/**''])
           in case glob_sync env ''**/*.md'' (cwd options) [''node_modules/**''] w of
                Inl e \<Rightarrow>
                  (\<lparr>ev_pass = MarkdownLint, ev_glob = Some g, ev_files = None,
                    ev_outcome = Inl e\<rparr>, w)
              | Inr fs \<Rightarrow> markdown_run env options (Some g) (Files fs) w))"

text \<open>
  \<^verbatim>\<open>[...files]\<close>: the elements of an array; spreading a string would give its
  characters (not reached: with a file list \<^verbatim>\<open>getLintFiles\<close> returns an array).
\<close>

fun spread :: "fileset \<Rightarrow> string list" where
  "spread (Files fs) = fs"
| "spread (Pattern p) = map (\<lambda>c. [c]) p"

text \<open>Lines 106 to 113.\<close>

definition prettier_exec ::
  "('cfg, 'raw) env \<Rightarrow> (string \<times> string \<times> string list) option \<Rightarrow> fileset \<Rightarrow> world \<Rightarrow> event \<times> world" where
  "prettier_exec env g fs w =
     (let ev = (\<lambda>out. \<lparr>ev_pass = PostFormat, ev_glob = g, ev_files = Some fs, ev_outcome = out\<rparr>)
      in case execa_sync env (path_resolve env [dirname env, ''../../node_modules/.bin/prettier''])
                (''-w'' # spread fs) w of
           (Some e, w1) \<Rightarrow> (ev (Inl e), w1)
         | (None, w1) \<Rightarrow> (ev (Inr []), w1))"

definition prettier_second :: "('cfg, 'raw) env \<Rightarrow> ScanOptions \<Rightarrow> world \<Rightarrow> event \<times> world" where
  "prettier_second env options w =
     (let ext = ESLINT_FILE_EXT env @ STYLELINT_FILE_EXT env
      in case lint_files options of
           Some given \<Rightarrow> prettier_exec env None (getLintFiles env options ext) w
         | None \<Rightarrow>
             (let g = (ext_pattern ext, cwd options, [''node_modules/**''])
              in case glob_sync env (ext_pattern ext) (cwd options) [''node_modules/**''] w of
                   Inl e \<Rightarrow>
                     (\<lparr>ev_pass = PostFormat, ev_glob = Some g, ev_files = None,
                       ev_outcome = Inl e\<rparr>, w)
                 | Inr fs \<Rightarrow> prettier_exec env (Some g) (Files fs) w))"

subsection \<open>The action\<close>

text \<open>
  The variables of the action while the passes run: \<^verbatim>\<open>results\<close>, \<^verbatim>\<open>runErrors\<close>,
  the world, and the record of the passes entered so far.
\<close>

record scan_state =
  st_results :: "ScanResult list"
  st_runErrors :: "error list"
  st_world :: world
  st_trace :: "event list"

text \<open>
  The end of a \<^verbatim>\<open>try/catch\<close>: \<^verbatim>\<open>results = results.concat(..)\<close> when the body
  came through, \<^verbatim>\<open>runErrors.push(e)\<close> when it threw.
\<close>

definition settle :: "event \<times> world \<Rightarrow> scan_state \<Rightarrow> scan_state" where
  "settle a st =
     (case ev_outcome (fst a) of
        Inr rs \<Rightarrow>
          st\<lparr>st_results := st_results st @ rs, st_world := snd a,
             st_trace := st_trace st @ [fst a]\<rparr>
      | Inl e \<Rightarrow>
          st\<lparr>st_runErrors := st_runErrors st @ [e], st_world := snd a,
             st_trace := st_trace st @ [fst a]\<rparr>)"

text \<open>Lines 62 to 117: the three linters and the formatter binary.\<close>

definition lint_passes ::
  "('cfg, 'raw) env \<Rightarrow> ScanOptions \<Rightarrow> jsobj \<Rightarrow> jsobj \<Rightarrow> scan_state \<Rightarrow> scan_state" where
  "lint_passes env options pkg config st0 =
     (let st1 = settle (eslint_try env options pkg config (st_world st0)) st0;
          st2 = (if not_false (get_prop config ''enableStylelint'')
                 then settle (stylelint_try env options pkg config (st_world st1)) st1
                 else st1);
          st3 = (if not_false (get_prop config ''enableMarkdownlint'')
                 then settle (markdown_try env options (st_world st2)) st2
                 else st2)
      in if truthy (get_prop config ''enablePrettier'') \<and> fix_flag options
         then settle (prettier_second env options (st_world st3)) st3
         else st3)"

text \<open>
  What an invocation leaves: the report it resolves to or the error it rejects with,
  the world, and the passes it entered.
\<close>

record scan_out =
  out_report :: "error + ScanReport"
  out_world :: world
  out_trace :: "event list"

text \<open>Lines 119 to 130: the report file is only started, then the report is returned.\<close>

definition finish :: "('cfg, 'raw) env \<Rightarrow> ScanOptions \<Rightarrow> scan_state \<Rightarrow> scan_out" where
  "finish env options st =
     (let w = st_world st;
          reportPath = path_resolve env [process_cwd env, ''./'' @ PKG_NAME env @ ''-report.json'']
      in \<lparr>out_report = Inr
            \<lparr>results = st_results st,
             ScanReport.errorCount =
               foldl (\<lambda>count r. count + ScanResult.errorCount r) 0 (st_results st),
             ScanReport.warningCount =
               foldl (\<lambda>count r. count + ScanResult.warningCount r) 0 (st_results st),
             runErrors = st_runErrors st\<rparr>,
          out_world =
            (if outputReport options
             then w\<lparr>pending := pending w @ [OutputFile reportPath (JSON_stringify env (st_results st))]\<rparr>
             else w),
          out_trace = st_trace st\<rparr>)"

text \<open>Lines 45 to 130, with the two configurations and the two ignore lists read.\<close>

definition scan_passes ::
  "('cfg, 'raw) env \<Rightarrow> ScanOptions \<Rightarrow> jsobj \<Rightarrow> jsobj \<Rightarrow> string list \<Rightarrow> string list \<Rightarrow> world \<Rightarrow>
     scan_out" where
  "scan_passes env options pkg config eslintIgnore stylelintIgnore w =
     (if fix_flag options \<and> not_false (get_prop config ''enablePrettier'')
      then (case prettier_first env options eslintIgnore stylelintIgnore w of
              (ev, w1) \<Rightarrow>
                (case ev_outcome ev of
                   Inl e \<Rightarrow> \<lparr>out_report = Inl e, out_world = w1, out_trace = [ev]\<rparr>
                 | Inr rs \<Rightarrow>
                     finish env options
                       (lint_passes env options pkg config
                          \<lparr>st_results = [], st_runErrors = [], st_world = w1, st_trace = [ev]\<rparr>)))
      else finish env options
             (lint_passes env options pkg config
                \<lparr>st_results = [], st_runErrors = [], st_world = w, st_trace = []\<rparr>))"

text \<open>The whole action. A configuration or an ignore file that cannot be read rejects it.\<close>

definition scan :: "('cfg, 'raw) env \<Rightarrow> ScanOptions \<Rightarrow> world \<Rightarrow> scan_out" where
  "scan env options w =
     (case readConfigFile env options ''package.json'' w of
        Inl e \<Rightarrow> \<lparr>out_report = Inl e, out_world = w, out_trace = []\<rparr>
      | Inr pkg \<Rightarrow>
     (case readConfigFile env options (PKG_NAME env @ ''.config.js'') w of
        Inl e \<Rightarrow> \<lparr>out_report = Inl e, out_world = w, out_trace = []\<rparr>
      | Inr config \<Rightarrow>
     (case readIgnore env options ''.eslintignore'' w of
        Inl e \<Rightarrow> \<lparr>out_report = Inl e, out_world = w, out_trace = []\<rparr>
      | Inr eslintIgnore \<Rightarrow>
     (case readIgnore env options ''.stylelintignore'' w of
        Inl e \<Rightarrow> \<lparr>out_report = Inl e, out_world = w, out_trace = []\<rparr>
      | Inr stylelintIgnore \<Rightarrow>
          scan_passes env options pkg config eslintIgnore stylelintIgnore w))))"

subsection \<open>The passes as sequences of calls\<close>

text \<open>
  The body of each pass once more, now as the sequence of calls it makes to what the
  action imports, without the record of the pass. A step runs in a world and ends with
  a value or with what it threw. \<open>and_then\<close> is one statement after another inside a
  \<^verbatim>\<open>try\<close> block: the second runs on the value of the first, unless the first threw,
  and then nothing more of the block runs. \<open>after\<close> is the same for a call that returns
  nothing, and \<open>returns\<close> a call that leaves the world alone.
\<close>

type_synonym 'a step = "world \<Rightarrow> (error + 'a) \<times> world"

definition returns :: "error + 'a \<Rightarrow> 'a step" where
  "returns r u = (r, u)"

definition and_then :: "'a step \<Rightarrow> ('a \<Rightarrow> 'b step) \<Rightarrow> 'b step" where
  "and_then m k u = (case m u of (Inl e, u1) \<Rightarrow> (Inl e, u1) | (Inr a, u1) \<Rightarrow> k a u1)"

definition after :: "(world \<Rightarrow> error option \<times> world) \<Rightarrow> 'b step \<Rightarrow> 'b step" where
  "after f k u = (case f u of (Some e, u1) \<Rightarrow> (Inl e, u1) | (None, u1) \<Rightarrow> k u1)"

text \<open>\<^verbatim>\<open>glob.sync(pattern, { cwd, ignore })\<close>: it reads the world and leaves it alone.\<close>

definition globbing :: "('cfg, 'raw) env \<Rightarrow> string \<Rightarrow> string \<Rightarrow> string list \<Rightarrow> string list step" where
  "globbing env pat c ig u = (glob_sync env pat c ig u, u)"

text \<open>
  Lines 64 to 68, 76 to 81 and 93 to 97, for a given file set: the configuration, the
  engine on the file set, for the script linter the fixes when \<^verbatim>\<open>fix\<close> is set, and the
  formatting of what the engine returned.
\<close>

definition script_lint_on ::
  "('cfg, 'raw) env \<Rightarrow> ScanOptions \<Rightarrow> jsobj \<Rightarrow> jsobj \<Rightarrow> fileset \<Rightarrow> ScanResult list step" where
  "script_lint_on env options pkg config fs =
     and_then (returns (eslint_getLintConfig env options pkg config)) (\<lambda>cfg.
     and_then (eslint_lintFiles env cfg fs) (\<lambda>raw.
     after (if fix_flag options then eslint_outputFixes env raw else (\<lambda>u. (None, u)))
       (returns (eslint_formatResults env raw (quiet options)))))"

definition style_lint_on ::
  "('cfg, 'raw) env \<Rightarrow> ScanOptions \<Rightarrow> jsobj \<Rightarrow> jsobj \<Rightarrow> fileset \<Rightarrow> ScanResult list step" where
  "style_lint_on env options pkg config fs =
     and_then (returns (stylelint_getLintConfig env options pkg config)) (\<lambda>cfg.
     and_then (stylelint_lint env cfg fs) (\<lambda>raw.
     returns (stylelint_formatResults env raw (quiet options))))"

definition markdown_lint_on ::
  "('cfg, 'raw) env \<Rightarrow> ScanOptions \<Rightarrow> fileset \<Rightarrow> ScanResult list step" where
  "markdown_lint_on env options fs =
     and_then (returns (markdownLint_getLintConfig env options)) (\<lambda>cfg.
     and_then (markdownLint_lint env cfg fs) (\<lambda>raw.
     returns (markdownLint_formatResults env raw (quiet options))))"

text \<open>Line 110: the formatter binary on the given names; it adds no result.\<close>

definition formatter_on :: "('cfg, 'raw) env \<Rightarrow> string list \<Rightarrow> ScanResult list step" where
  "formatter_on env names =
     after (execa_sync env (path_resolve env [dirname env, ''../../node_modules/.bin/prettier''])
              (''-w'' # names))
       (returns (Inr []))"

text \<open>
  Lines 90 to 97 and 106 to 110: with a file list the file set of \<^verbatim>\<open>getLintFiles\<close>,
  without one what the glob finds in the world the pass starts in.
\<close>

definition markdown_pass :: "('cfg, 'raw) env \<Rightarrow> ScanOptions \<Rightarrow> ScanResult list step" where
  "markdown_pass env options =
     (case lint_files options of
        Some given \<Rightarrow>
          markdown_lint_on env options (getLintFiles env options (MARKDOWN_LINT_FILE_EXT env))
      | None \<Rightarrow>
          and_then (globbing env ''**/*.md'' (cwd options) [''node_modules/**''])
            (\<lambda>found. markdown_lint_on env options (Files found)))"

definition format_pass :: "('cfg, 'raw) env \<Rightarrow> ScanOptions \<Rightarrow> ScanResult list step" where
  "format_pass env options =
     (case lint_files options of
        Some given \<Rightarrow>
          formatter_on env
            (spread (getLintFiles env options (ESLINT_FILE_EXT env @ STYLELINT_FILE_EXT env)))
      | None \<Rightarrow>
          and_then (globbing env (ext_pattern (ESLINT_FILE_EXT env @ STYLELINT_FILE_EXT env))
                      (cwd options) [''node_modules/**''])
            (\<lambda>found. formatter_on env found))"

text \<open>
  Lines 49 to 59: the first formatting pass. The two ignore lists are the ignore option
  of its glob.
\<close>

definition first_format_pass ::
  "('cfg, 'raw) env \<Rightarrow> ScanOptions \<Rightarrow> string list \<Rightarrow> string list \<Rightarrow> ScanResult list step" where
  "first_format_pass env options eslintIgnore stylelintIgnore =
     (case getLintFiles env options (ESLINT_FILE_EXT env @ STYLELINT_FILE_EXT env) of
        Pattern p \<Rightarrow>
          and_then (globbing env p (cwd options) (eslintIgnore @ stylelintIgnore))
            (\<lambda>found. after (schedule_format found) (returns (Inr [])))
      | Files fs \<Rightarrow> after (schedule_format fs) (returns (Inr [])))"

text \<open>
  Lines 62 to 117: the four passes that stand in a \<^verbatim>\<open>try/catch\<close>, those whose
  conditions hold, in the order of the source.
\<close>

definition due_passes ::
  "('cfg, 'raw) env \<Rightarrow> ScanOptions \<Rightarrow> jsobj \<Rightarrow> jsobj \<Rightarrow> ScanResult list step list" where
  "due_passes env options pkg config =
     [script_lint_on env options pkg config (getLintFiles env options (ESLINT_FILE_EXT env))] @
     (if not_false (get_prop config ''enableStylelint'')
      then [style_lint_on env options pkg config (getLintFiles env options (STYLELINT_FILE_EXT env))]
      else []) @
     (if not_false (get_prop config ''enableMarkdownlint'') then [markdown_pass env options] else []) @
     (if truthy (get_prop config ''enablePrettier'') \<and> fix_flag options
      then [format_pass env options] else [])"

text \<open>
  One \<^verbatim>\<open>try/catch\<close> after the other: every step of the list runs, each in the world
  the one before left, whatever that one ended with. The outcomes are listed in order;
  \<open>oks\<close> is what an outcome adds to \<^verbatim>\<open>results\<close>, \<open>errs\<close> what it adds to
  \<^verbatim>\<open>runErrors\<close>.
\<close>

fun in_turn :: "'a step list \<Rightarrow> world \<Rightarrow> (error + 'a) list \<times> world" where
  "in_turn [] u = ([], u)"
| "in_turn (m # ms) u =
     (case m u of (out, u1) \<Rightarrow> (case in_turn ms u1 of (outs, u2) \<Rightarrow> (out # outs, u2)))"

definition oks :: "error + 'a list \<Rightarrow> 'a list" where
  "oks out = (case out of Inr rs \<Rightarrow> rs | Inl e \<Rightarrow> [])"

definition errs :: "error + 'a \<Rightarrow> error list" where
  "errs out = (case out of Inr rs \<Rightarrow> [] | Inl e \<Rightarrow> [e])"

text \<open>How a pass of the action ended and the world it left, without its record.\<close>

definition attempt :: "event \<times> world \<Rightarrow> (error + ScanResult list) \<times> world" where
  "attempt a = (ev_outcome (fst a), snd a)"

text \<open>
  Whether a step came through, and the world the script linter starts in: the one the
  first formatting pass left, if it ran (line 48).
\<close>

definition came_through :: "error + 'a \<Rightarrow> bool" where
  "came_through out = (case out of Inr a \<Rightarrow> True | Inl e \<Rightarrow> False)"

definition linters_start ::
  "('cfg, 'raw) env \<Rightarrow> ScanOptions \<Rightarrow> jsobj \<Rightarrow> string list \<Rightarrow> string list \<Rightarrow> world \<Rightarrow> world" where
  "linters_start env options config eslintIgnore stylelintIgnore w =
     (if fix_flag options \<and> not_false (get_prop config ''enablePrettier'')
      then snd (first_format_pass env options eslintIgnore stylelintIgnore w) else w)"

text \<open>The filter of \<^verbatim>\<open>getLintFiles\<close> (line 21): the names with an extension of the list, in order.\<close>

definition chosen :: "string list \<Rightarrow> string list \<Rightarrow> string list" where
  "chosen ext fs = filter (\<lambda>name. path_extname name \<in> set ext) fs"


subsection \<open>Reading a run\<close>

text \<open>What an entered pass added to \<^verbatim>\<open>results\<close> and to \<^verbatim>\<open>runErrors\<close>.\<close>

definition ev_results :: "event \<Rightarrow> ScanResult list" where
  "ev_results ev = (case ev_outcome ev of Inr rs \<Rightarrow> rs | Inl e \<Rightarrow> [])"

definition ev_errors :: "event \<Rightarrow> error list" where
  "ev_errors ev = (case ev_outcome ev of Inr rs \<Rightarrow> [] | Inl e \<Rightarrow> [e])"

text \<open>
  The passes whose conditions (lines 48, 74, 88 and 104) hold, in the order of the
  source; the script linter has no condition.
\<close>

definition due :: "jsobj \<Rightarrow> ScanOptions \<Rightarrow> pass list" where
  "due config options =
     (if fix_flag options \<and> not_false (get_prop config ''enablePrettier'')
      then [PreFormat] else []) @
     [ScriptLint] @
     (if not_false (get_prop config ''enableStylelint'') then [StyleLint] else []) @
     (if not_false (get_prop config ''enableMarkdownlint'') then [MarkdownLint] else []) @
     (if truthy (get_prop config ''enablePrettier'') \<and> fix_flag options
      then [PostFormat] else [])"

text \<open>The two lists of the state hold what the recorded passes added, in order.\<close>

definition tallied :: "scan_state \<Rightarrow> bool" where
  "tallied st =
     (st_results st = concat (map ev_results (st_trace st)) \<and>
      st_runErrors st = concat (map ev_errors (st_trace st)))"

text \<open>The same imports with another style linter.\<close>

definition with_stylelint ::
  "('cfg, 'raw) env \<Rightarrow> (ScanOptions \<Rightarrow> jsobj \<Rightarrow> jsobj \<Rightarrow> error + 'cfg) \<Rightarrow>
     ('cfg \<Rightarrow> fileset \<Rightarrow> world \<Rightarrow> (error + 'raw) \<times> world) \<Rightarrow>
     ('raw \<Rightarrow> bool \<Rightarrow> error + ScanResult list) \<Rightarrow> ('cfg, 'raw) env" where
  "with_stylelint env g l f =
     env\<lparr>stylelint_getLintConfig := g, stylelint_lint := l, stylelint_formatResults := f\<rparr>"

text \<open>
  The tree of a world: which paths exist, and which of them are directories. Two worlds
  with the same tree differ at most in the texts of their files and in what is pending.
\<close>

definition tree_of :: "world \<Rightarrow> string \<Rightarrow> bool option" where
  "tree_of w p = map_option (\<lambda>n. n = Dir) (files w p)"

definition same_tree :: "world \<Rightarrow> world \<Rightarrow> bool" where
  "same_tree w w' = (tree_of w = tree_of w')"

text \<open>A text with every CR that stands before an LF removed.\<close>

fun uncr :: "string \<Rightarrow> string" where
  "uncr [] = []"
| "uncr (c # cs) =
     (if c = CHR 0x0D \<and> cs \<noteq> [] \<and> hd cs = CHR 0x0A then uncr cs else c # uncr cs)"

subsection \<open>A sample project\<close>

text \<open>
  Concrete imports to run the action on. The constants stand in for those of
  \<^verbatim>\<open>utils/constants\<close>, which is not among the sources: script extensions with
  \<^verbatim>\<open>.ts\<close>, style extensions with \<^verbatim>\<open>.css\<close>, and \<^verbatim>\<open>.md\<close> for markdown. Each engine reports one result per file it is given, with fixed
  counts, and changes nothing: \<open>result_of n e wn\<close> is a result for the file \<open>n\<close> with no
  findings listed and the counts \<open>e\<close> and \<open>wn\<close>. \<open>path_resolve\<close> joins with slashes, a
  leading \<^verbatim>\<open>./\<close> of a segment dropped. A required module is an object with the one key
  its text names, set to true, or to false when the text starts with an exclamation
  mark. The only glob that finds anything is the one for markdown. The stand-in for
  \<^verbatim>\<open>JSON.stringify\<close> lists the file paths.
\<close>

fun plain :: "string \<Rightarrow> string" where
  "plain (a # b # cs) = (if a = CHR ''.'' \<and> b = CHR ''/'' then cs else a # b # cs)"
| "plain cs = cs"

fun toy_module :: "string \<Rightarrow> jsobj" where
  "toy_module [] = Map.empty"
| "toy_module (c # cs) =
     (if c = CHR ''!'' then [cs \<mapsto> JBool False] else [c # cs \<mapsto> JBool True])"

definition result_of :: "string \<Rightarrow> int \<Rightarrow> int \<Rightarrow> ScanResult" where
  "result_of n e wn =
     \<lparr>filePath = n, messages = [], ScanResult.errorCount = e, ScanResult.warningCount = wn\<rparr>"

fun one_each :: "int \<Rightarrow> int \<Rightarrow> fileset \<Rightarrow> ScanResult list" where
  "one_each e wn (Files ns) = map (\<lambda>n. result_of n e wn) ns"
| "one_each e wn (Pattern p) = []"

definition sample_env :: "(unit, ScanResult list) env" where
  "sample_env =
     \<lparr>PKG_NAME = ''f2elint'',
      ESLINT_FILE_EXT = [''.js'', ''.jsx'', ''.ts'', ''.tsx'', ''.vue''],
      STYLELINT_FILE_EXT = [''.css'', ''.scss'', ''.less'', ''.acss''],
      MARKDOWN_LINT_FILE_EXT = [''.md''],
      process_cwd = ''/proj'',
      dirname = ''/proj/node_modules/f2elint/lib/actions'',
      path_resolve = (\<lambda>segs. join ''/'' (map plain segs)),
      require = (\<lambda>p w. case files w p of
                   Some (File s) \<Rightarrow> Inr (toy_module s)
                 | _ \<Rightarrow> Inl (Thrown ''Cannot find module'')),
      glob_sync = (\<lambda>pat c ig w. Inr (if pat = ''**/*.md'' then [''README.md''] else [])),
      eslint_getLintConfig = (\<lambda>options pkg config. Inr ()),
      eslint_lintFiles = (\<lambda>cfg fs w. (Inr (one_each 1 2 fs), w)),
      eslint_outputFixes = (\<lambda>raw w. (None, w)),
      eslint_formatResults = (\<lambda>raw q. Inr raw),
      stylelint_getLintConfig = (\<lambda>options pkg config. Inr ()),
      stylelint_lint = (\<lambda>cfg fs w. (Inr (one_each 0 1 fs), w)),
      stylelint_formatResults = (\<lambda>raw q. Inr raw),
      markdownLint_getLintConfig = (\<lambda>options. Inr ()),
      markdownLint_lint = (\<lambda>cfg fs w. (Inr (one_each 3 0 fs), w)),
      markdownLint_formatResults = (\<lambda>raw q. Inr raw),
      execa_sync = (\<lambda>bin args w. (None, w)),
      JSON_stringify = (\<lambda>rs. ''['' @ join '','' (map filePath rs) @ '']'')\<rparr>"

text \<open>The same project with a style linter that crashes.\<close>

definition failing_stylelint :: "(unit, ScanResult list) env" where
  "failing_stylelint =
     sample_env\<lparr>stylelint_lint := (\<lambda>cfg fs w. (Inl (Thrown ''stylelint''), w))\<rparr>"

text \<open>
  Options: a list of three files; the same with \<^verbatim>\<open>fix\<close>; with \<^verbatim>\<open>fix\<close> and a list
  that names a file not on disk; with \<^verbatim>\<open>fix\<close> and no list; with \<^verbatim>\<open>outputReport\<close>.
\<close>

definition sample_options :: ScanOptions where
  "sample_options =
     \<lparr>cwd = ''/proj'', include_root = ''src'', lint_files = Some [''a.ts'', ''b.css'', ''c.md''],
      quiet = False, fix_flag = False, outputReport = False\<rparr>"

definition fixing_options :: ScanOptions where
  "fixing_options = sample_options\<lparr>fix_flag := True\<rparr>"

definition stale_options :: ScanOptions where
  "stale_options =
     sample_options\<lparr>fix_flag := True, lint_files := Some [''a.ts'', ''gone.ts'', ''b.css'']\<rparr>"



text \<open>
  Worlds: nothing on disk; two source files; the two source files and a configuration
  that names the formatter; a configuration that turns the style linter off.
\<close>

definition no_files :: world where
  "no_files = \<lparr>files = Map.empty, pending = []\<rparr>"

definition two_sources :: world where
  "two_sources =
     \<lparr>files = [''a.ts'' \<mapsto> File ''let a = 1'', ''b.css'' \<mapsto> File ''a { }''], pending = []\<rparr>"

definition prettier_on :: world where
  "prettier_on =
     two_sources\<lparr>files :=
       (files two_sources)(''/proj/f2elint.config.js'' \<mapsto> File ''enablePrettier'')\<rparr>"

definition stylelint_off :: world where
  "stylelint_off =
     \<lparr>files = [''/proj/f2elint.config.js'' \<mapsto> File ''!enableStylelint''], pending = []\<rparr>"

text \<open>
  An ignore file with a CR LF, a comment, a blank line and padding, and another ignore
  file at the same place.
\<close>

definition ignore_text :: string where
  "ignore_text =
     ''node_modules/'' @ [CHR 0x0D, CHR 0x0A] @ ''# build output'' @ [CHR 0x0A, CHR 0x0A] @
     ''  dist/  '' @ [CHR 0x0A] @ ''lib''"

definition ignoring :: world where
  "ignoring = \<lparr>files = [''/proj/.eslintignore'' \<mapsto> File ignore_text], pending = []\<rparr>"


text \<open>
  The same project with a style linter and a formatter binary that both crash, and
  with a formatter binary that accepts one argument list only.
\<close>

definition failing_two :: "(unit, ScanResult list) env" where
  "failing_two =
     sample_env\<lparr>stylelint_lint := (\<lambda>cfg fs u. (Inl (Thrown ''stylelint''), u)),
                execa_sync := (\<lambda>bin args u. (Some (Thrown ''prettier''), u))\<rparr>"

definition checking_env :: "(unit, ScanResult list) env" where
  "checking_env =
     sample_env\<lparr>execa_sync := (\<lambda>bin args u.
       (if args = [''-w'', ''a.ts'', ''b.css''] then None else Some (Thrown ''other arguments''),
        u))\<rparr>"





section \<open>Properties\<close>

subsection \<open>The end of a try/catch\<close>

lemma settle_results: "st_results (settle a st) = st_results st @ ev_results (fst a)"
  by (simp add: settle_def ev_results_def split: sum.splits)

lemma settle_runErrors: "st_runErrors (settle a st) = st_runErrors st @ ev_errors (fst a)"
  by (simp add: settle_def ev_errors_def split: sum.splits)

lemma settle_trace: "st_trace (settle a st) = st_trace st @ [fst a]"
  by (simp add: settle_def split: sum.splits)

lemma settle_world: "st_world (settle a st) = snd a"
  by (simp add: settle_def split: sum.splits)

lemma tallied_settle: "tallied st \<Longrightarrow> tallied (settle a st)"
  by (simp add: tallied_def settle_results settle_runErrors settle_trace)

lemma tallied_lint_passes: "tallied st \<Longrightarrow> tallied (lint_passes env options pkg config st)"
  by (simp add: lint_passes_def Let_def tallied_settle)

subsection \<open>Which pass an attempt records\<close>

lemma eslint_try_pass: "ev_pass (fst (eslint_try env options pkg config w)) = ScriptLint"
  by (simp add: eslint_try_def Let_def split: sum.splits prod.splits option.splits)

lemma stylelint_try_pass: "ev_pass (fst (stylelint_try env options pkg config w)) = StyleLint"
  by (simp add: stylelint_try_def Let_def split: sum.splits prod.splits)

lemma markdown_try_pass: "ev_pass (fst (markdown_try env options w)) = MarkdownLint"
  by (simp add: markdown_try_def markdown_run_def Let_def
      split: sum.splits prod.splits option.splits)

lemma prettier_second_pass: "ev_pass (fst (prettier_second env options w)) = PostFormat"
  by (simp add: prettier_second_def prettier_exec_def Let_def
      split: sum.splits prod.splits option.splits)

lemma prettier_first_pass: "ev_pass (fst (prettier_first env options ei si w)) = PreFormat"
  by (simp add: prettier_first_def Let_def
      split: sum.splits prod.splits option.splits fileset.splits)

lemma prettier_first_ok:
  "ev_outcome (fst (prettier_first env options ei si w)) = Inr rs \<Longrightarrow> rs = []"
  by (auto simp add: prettier_first_def Let_def
      split: sum.splits prod.splits option.splits fileset.splits)

lemma lint_passes_trace_passes:
  "map ev_pass (st_trace (lint_passes env options pkg config st)) =
     map ev_pass (st_trace st) @
     [ScriptLint] @
     (if not_false (get_prop config ''enableStylelint'') then [StyleLint] else []) @
     (if not_false (get_prop config ''enableMarkdownlint'') then [MarkdownLint] else []) @
     (if truthy (get_prop config ''enablePrettier'') \<and> fix_flag options then [PostFormat] else [])"
  by (simp add: lint_passes_def Let_def settle_trace eslint_try_pass stylelint_try_pass
      markdown_try_pass prettier_second_pass)

subsection \<open>The shape of a run that returns a report\<close>

lemma foldl_plus: "foldl (\<lambda>count r. count + f r) a xs = a + sum_list (map f xs)" for a :: int
  by (induction xs arbitrary: a) simp_all

lemma finish_report:
  "out_report (finish env options st) =
     Inr \<lparr>results = st_results st,
          ScanReport.errorCount = sum_list (map ScanResult.errorCount (st_results st)),
          ScanReport.warningCount = sum_list (map ScanResult.warningCount (st_results st)),
          runErrors = st_runErrors st\<rparr>"
  by (simp add: finish_def Let_def foldl_plus)

lemma finish_trace: "out_trace (finish env options st) = st_trace st"
  by (simp add: finish_def Let_def)

lemma scan_passes_shape:
  assumes "out_report (scan_passes env options pkg config ei si w) = Inr rep"
  shows "\<exists>st. tallied st \<and> map ev_pass (st_trace st) = due config options \<and>
           scan_passes env options pkg config ei si w = finish env options st"
proof (cases "fix_flag options \<and> not_false (get_prop config ''enablePrettier'')")
  case True
  obtain ev w1 where p: "prettier_first env options ei si w = (ev, w1)"
    by (cases "prettier_first env options ei si w")
  from assms True p obtain rs where rs: "ev_outcome ev = Inr rs"
    by (cases "ev_outcome ev") (simp_all add: scan_passes_def)
  with p prettier_first_ok [of env options ei si w rs] have "rs = []" by simp
  let ?ini = "\<lparr>st_results = [], st_runErrors = [], st_world = w1, st_trace = [ev]\<rparr>"
  let ?fin = "lint_passes env options pkg config ?ini"
  have "tallied ?ini"
    using rs \<open>rs = []\<close> by (simp add: tallied_def ev_results_def ev_errors_def)
  then have "tallied ?fin" by (rule tallied_lint_passes)
  moreover have "ev_pass ev = PreFormat"
    using p prettier_first_pass [of env options ei si w] by simp
  then have "map ev_pass (st_trace ?fin) = due config options"
    using True by (simp add: lint_passes_trace_passes due_def)
  moreover have "scan_passes env options pkg config ei si w = finish env options ?fin"
    using True p rs by (simp add: scan_passes_def)
  ultimately show ?thesis by blast
next
  case False
  let ?ini = "\<lparr>st_results = [], st_runErrors = [], st_world = w, st_trace = []\<rparr>"
  let ?fin = "lint_passes env options pkg config ?ini"
  have "tallied ?ini" by (simp add: tallied_def)
  then have "tallied ?fin" by (rule tallied_lint_passes)
  moreover have "map ev_pass (st_trace ?fin) = due config options"
    using False by (auto simp add: lint_passes_trace_passes due_def)
  moreover have "scan_passes env options pkg config ei si w = finish env options ?fin"
    using False by (auto simp add: scan_passes_def)
  ultimately show ?thesis by blast
qed

lemma scan_reaches_passes:
  assumes "out_report (scan env options w) = Inr rep"
  shows "\<exists>pkg config ei si.
           readConfigFile env options ''package.json'' w = Inr pkg \<and>
           readConfigFile env options (PKG_NAME env @ ''.config.js'') w = Inr config \<and>
           readIgnore env options ''.eslintignore'' w = Inr ei \<and>
           readIgnore env options ''.stylelintignore'' w = Inr si \<and>
           scan env options w = scan_passes env options pkg config ei si w"
  using assms by (simp add: scan_def split: sum.splits)

lemma scan_shape:
  assumes "out_report (scan env options w) = Inr rep"
    and "readConfigFile env options (PKG_NAME env @ ''.config.js'') w = Inr config"
  shows "\<exists>st. tallied st \<and> map ev_pass (st_trace st) = due config options \<and>
           scan env options w = finish env options st"
proof -
  from scan_reaches_passes [OF assms(1)] assms(2) obtain pkg ei si where
    "scan env options w = scan_passes env options pkg config ei si w"
    by auto
  with assms(1) scan_passes_shape [of env options pkg config ei si w rep] show ?thesis
    by simp
qed

text \<open>A run that rejects entered no pass, or only the first formatting pass, which threw.\<close>

lemma scan_passes_aborted:
  assumes "out_report (scan_passes env options pkg config ei si w) = Inl e"
  shows "\<exists>ev. out_trace (scan_passes env options pkg config ei si w) = [ev] \<and>
           ev_pass ev = PreFormat \<and> ev_outcome ev = Inl e"
proof -
  obtain ev w1 where p: "prettier_first env options ei si w = (ev, w1)"
    by (cases "prettier_first env options ei si w")
  with prettier_first_pass [of env options ei si w] have "ev_pass ev = PreFormat" by simp
  with assms p show ?thesis
    by (simp add: scan_passes_def finish_report split: if_splits sum.splits)
qed

lemma scan_aborted:
  assumes "out_report (scan env options w) = Inl e"
  shows "out_trace (scan env options w) = [] \<or>
         (\<exists>ev. out_trace (scan env options w) = [ev] \<and> ev_pass ev = PreFormat \<and>
            ev_outcome ev = Inl e)"
  using assms scan_passes_aborted [of env options _ _ _ _ w e]
  by (simp add: scan_def split: sum.splits)

subsection \<open>Running the sample project\<close>

lemma result_of_sel [simp]:
  "filePath (result_of n e wn) = n"
  "ScanResult.errorCount (result_of n e wn) = e"
  "ScanResult.warningCount (result_of n e wn) = wn"
  by (simp_all add: result_of_def)

lemmas run_defs = scan_def scan_passes_def lint_passes_def finish_def settle_def
  readConfigFile_def readIgnore_def existsSync_def readFileSync_def
  prettier_first_def eslint_try_def stylelint_try_def markdown_try_def markdown_run_def
  prettier_second_def prettier_exec_def getLintFiles_def ext_pattern_def
  get_prop_def not_false_def path_extname_def basename_part_def

subsection \<open>The passes as sequences of calls\<close>

text \<open>The first formatting pass reads files and starts work; it writes nothing.\<close>

lemma schedule_format_files: "files (snd (schedule_format fs w)) = files w"
  by (induction fs arbitrary: w) (simp_all split: sum.splits)

lemma prettier_first_files: "files (snd (prettier_first env options ei si w)) = files w"
proof -
  have "snd (case schedule_format fs w of (Some e, w1) \<Rightarrow> (a e, w1) | (None, w1) \<Rightarrow> (b, w1)) =
      snd (schedule_format fs w)" for fs and a :: "error \<Rightarrow> event" and b :: event
    by (simp split: prod.splits option.splits)
  then show ?thesis
    by (simp add: prettier_first_def Let_def schedule_format_files
        split: fileset.splits sum.splits)
qed


lemma in_turn_Cons:
  "in_turn (m # ms) u = (fst (m u) # fst (in_turn ms (snd (m u))), snd (in_turn ms (snd (m u))))"
  by (simp split: prod.splits)



lemma length_in_turn: "length (fst (in_turn ms u)) = length ms"
  by (induction ms arbitrary: u) (simp_all add: in_turn_Cons del: in_turn.simps(2))

text \<open>
  Each pass of the action ends as its sequence of calls ends, and leaves the world that
  sequence leaves.
\<close>

lemma prettier_first_engine:
  "attempt (prettier_first env options ei si u) = first_format_pass env options ei si u"
  by (simp add: attempt_def prettier_first_def first_format_pass_def globbing_def and_then_def
      after_def returns_def Let_def split: fileset.splits sum.splits prod.splits option.splits)

lemma eslint_try_engine:
  "attempt (eslint_try env options pkg config u) =
     script_lint_on env options pkg config (getLintFiles env options (ESLINT_FILE_EXT env)) u"
  by (simp add: attempt_def eslint_try_def script_lint_on_def and_then_def after_def returns_def
      Let_def split: sum.splits prod.splits option.splits)

lemma stylelint_try_engine:
  "attempt (stylelint_try env options pkg config u) =
     style_lint_on env options pkg config (getLintFiles env options (STYLELINT_FILE_EXT env)) u"
  by (simp add: attempt_def stylelint_try_def style_lint_on_def and_then_def returns_def
      Let_def split: sum.splits prod.splits option.splits)

lemma markdown_try_engine: "attempt (markdown_try env options u) = markdown_pass env options u"
  by (simp add: attempt_def markdown_try_def markdown_run_def markdown_pass_def
      markdown_lint_on_def globbing_def and_then_def returns_def
      Let_def split: sum.splits prod.splits option.splits)

lemma prettier_second_engine: "attempt (prettier_second env options u) = format_pass env options u"
  by (simp add: attempt_def prettier_second_def prettier_exec_def format_pass_def
      formatter_on_def globbing_def and_then_def after_def returns_def
      Let_def split: sum.splits prod.splits option.splits)

lemma settle_attempt:
  "st_results (settle a st) = st_results st @ oks (fst (attempt a))"
  "st_runErrors (settle a st) = st_runErrors st @ errs (fst (attempt a))"
  "st_world (settle a st) = snd (attempt a)"
  by (simp_all add: settle_def attempt_def oks_def errs_def split: sum.splits)

text \<open>
  So the four caught passes add to \<^verbatim>\<open>results\<close> and \<^verbatim>\<open>runErrors\<close> what their
  sequences of calls end with, run in turn.
\<close>

lemma lint_passes_in_turn:
  "st_results (lint_passes env options pkg config st) =
     st_results st @ concat (map oks (fst (in_turn (due_passes env options pkg config) (st_world st))))"
  "st_runErrors (lint_passes env options pkg config st) =
     st_runErrors st @ concat (map errs (fst (in_turn (due_passes env options pkg config) (st_world st))))"
  "st_world (lint_passes env options pkg config st) =
     snd (in_turn (due_passes env options pkg config) (st_world st))"
  by (simp_all add: lint_passes_def due_passes_def Let_def settle_attempt in_turn_Cons
      eslint_try_engine stylelint_try_engine markdown_try_engine prettier_second_engine
      del: in_turn.simps(2))

lemma linters_start_model:
  "linters_start env options config ei si w =
     (if fix_flag options \<and> not_false (get_prop config ''enablePrettier'')
      then snd (prettier_first env options ei si w) else w)"
  using prettier_first_engine [of env options ei si w, symmetric]
  by (simp add: linters_start_def attempt_def)

lemma linters_start_files: "files (linters_start env options config ei si w) = files w"
  by (simp add: linters_start_model prettier_first_files)

text \<open>With a file list, every file set is the list filtered.\<close>

lemma getLintFiles_chosen:
  "lint_files options = Some fs \<Longrightarrow> getLintFiles env options ext = Files (chosen ext fs)"
  by (simp add: getLintFiles_def chosen_def)

lemma first_format_explicit:
  assumes "lint_files options = Some fs"
  shows "fst (first_format_pass env options ei si w) =
           (case fst (schedule_format (chosen (ESLINT_FILE_EXT env @ STYLELINT_FILE_EXT env) fs) w) of
              Some e \<Rightarrow> Inl e
            | None \<Rightarrow> Inr [])"
    and "snd (first_format_pass env options ei si w) =
           snd (schedule_format (chosen (ESLINT_FILE_EXT env @ STYLELINT_FILE_EXT env) fs) w)"
  using assms
  by (simp_all add: first_format_pass_def getLintFiles_chosen after_def returns_def
      split: prod.splits option.splits)

text \<open>
  When the first formatting pass is not due or comes through, the action goes on to
  the linters and to its end.
\<close>

lemma scan_passes_finish:
  assumes "fix_flag options \<and> not_false (get_prop config ''enablePrettier'') \<Longrightarrow>
             came_through (fst (first_format_pass env options ei si w))"
  shows "\<exists>tr. scan_passes env options pkg config ei si w =
           finish env options (lint_passes env options pkg config
             \<lparr>st_results = [], st_runErrors = [],
              st_world = linters_start env options config ei si w, st_trace = tr\<rparr>)"
proof (cases "fix_flag options \<and> not_false (get_prop config ''enablePrettier'')")
  case True
  obtain ev w1 where p: "prettier_first env options ei si w = (ev, w1)"
    by (cases "prettier_first env options ei si w")
  with prettier_first_engine [of env options ei si w]
  have e: "first_format_pass env options ei si w = (ev_outcome ev, w1)"
    by (simp add: attempt_def)
  with assms True obtain rs where "ev_outcome ev = Inr rs"
    by (cases "ev_outcome ev") (simp_all add: came_through_def)
  with True p show ?thesis by (auto simp add: scan_passes_def linters_start_model)
next
  case False
  then show ?thesis by (auto simp add: scan_passes_def linters_start_model)
qed

lemma scan_outcome:
  assumes "readConfigFile env options ''package.json'' w = Inr pkg"
    and "readConfigFile env options (PKG_NAME env @ ''.config.js'') w = Inr config"
    and "readIgnore env options ''.eslintignore'' w = Inr ei"
    and "readIgnore env options ''.stylelintignore'' w = Inr si"
    and "fix_flag options \<and> not_false (get_prop config ''enablePrettier'') \<Longrightarrow>
           came_through (fst (first_format_pass env options ei si w))"
  shows "\<exists>rep.
           out_report (scan env options w) = Inr rep \<and>
           results rep =
             concat (map oks (fst (in_turn (due_passes env options pkg config)
               (linters_start env options config ei si w)))) \<and>
           runErrors rep =
             concat (map errs (fst (in_turn (due_passes env options pkg config)
               (linters_start env options config ei si w)))) \<and>
           out_world (scan env options w) =
             (if outputReport options
              then (snd (in_turn (due_passes env options pkg config)
                      (linters_start env options config ei si w)))
                   \<lparr>pending :=
                      pending (snd (in_turn (due_passes env options pkg config)
                        (linters_start env options config ei si w))) @
                      [OutputFile
                         (path_resolve env
                            [process_cwd env, ''./'' @ PKG_NAME env @ ''-report.json''])
                         (JSON_stringify env (results rep))]\<rparr>
              else snd (in_turn (due_passes env options pkg config)
                      (linters_start env options config ei si w)))"
proof -
  from assms(1-4) have s: "scan env options w = scan_passes env options pkg config ei si w"
    by (simp add: scan_def)
  from scan_passes_finish [where pkg = pkg and config = config, OF assms(5)] obtain tr where
    f: "scan_passes env options pkg config ei si w =
      finish env options (lint_passes env options pkg config
        \<lparr>st_results = [], st_runErrors = [],
         st_world = linters_start env options config ei si w, st_trace = tr\<rparr>)"
    by blast
  let ?fin = "lint_passes env options pkg config
        \<lparr>st_results = [], st_runErrors = [],
         st_world = linters_start env options config ei si w, st_trace = tr\<rparr>"
  have r: "out_report (scan env options w) =
      Inr \<lparr>results = st_results ?fin,
           ScanReport.errorCount = sum_list (map ScanResult.errorCount (st_results ?fin)),
           ScanReport.warningCount = sum_list (map ScanResult.warningCount (st_results ?fin)),
           runErrors = st_runErrors ?fin\<rparr>"
    unfolding s f by (rule finish_report)
  have o: "out_world (scan env options w) =
      (if outputReport options
       then (st_world ?fin)
            \<lparr>pending :=
               pending (st_world ?fin) @
               [OutputFile
                  (path_resolve env [process_cwd env, ''./'' @ PKG_NAME env @ ''-report.json''])
                  (JSON_stringify env (st_results ?fin))]\<rparr>
       else st_world ?fin)"
    unfolding s f by (simp add: finish_def Let_def)
  show ?thesis
    unfolding r o by (simp add: lint_passes_in_turn)
qed

subsection \<open>Failure isolation\<close>

text \<open>
  C1. Let the two configurations and the two ignore files be read, and let the first
  formatting pass, if it is due, come through, so that the action reaches the script
  linter. Then the action returns a report, whatever the passes after that do. The
  passes whose conditions hold (the script linter, the style linter, the markdown
  linter, the formatter binary) are all run, one after the other, each as the sequence
  of calls of its \<^verbatim>\<open>try\<close> block on the engines, from the world the first formatting
  pass left, which has the files of the initial one. \<^verbatim>\<open>results\<close> is the concatenation
  of what the passes that came through returned, and \<^verbatim>\<open>runErrors\<close> holds, in the
  order of the passes, exactly one entry for each pass that threw: the value thrown. A
  pass that throws adds no result, and the passes after it run all the same, in the
  world it left.
\<close>

theorem scan_isolates_passes:
  assumes "readConfigFile env options ''package.json'' w = Inr pkg"
    and "readConfigFile env options (PKG_NAME env @ ''.config.js'') w = Inr config"
    and "readIgnore env options ''.eslintignore'' w = Inr ei"
    and "readIgnore env options ''.stylelintignore'' w = Inr si"
    and "fix_flag options \<and> not_false (get_prop config ''enablePrettier'') \<Longrightarrow>
           came_through (fst (first_format_pass env options ei si w))"
  shows "\<exists>rep outs.
           out_report (scan env options w) = Inr rep \<and>
           outs = fst (in_turn (due_passes env options pkg config)
                    (linters_start env options config ei si w)) \<and>
           files (linters_start env options config ei si w) = files w \<and>
           length outs = length (due_passes env options pkg config) \<and>
           results rep = concat (map oks outs) \<and>
           runErrors rep = concat (map errs outs)"
proof -
  from scan_outcome [OF assms] obtain rep where
    "out_report (scan env options w) = Inr rep"
    "results rep =
       concat (map oks (fst (in_turn (due_passes env options pkg config)
         (linters_start env options config ei si w))))"
    "runErrors rep =
       concat (map errs (fst (in_turn (due_passes env options pkg config)
         (linters_start env options config ei si w))))"
    by blast
  then show ?thesis by (simp add: length_in_turn linters_start_files)
qed

text \<open>
  With \<^verbatim>\<open>fix\<close> set and the formatter named in the configuration all four passes are
  due. The style linter and the formatter binary throw: the results of the script and
  the markdown linter are reported, and \<^verbatim>\<open>runErrors\<close> holds the two values thrown.
\<close>

lemma prettier_on_reads:
  assumes "cwd options = ''/proj''" and "PKG_NAME env = ''f2elint''"
    and "path_resolve env = path_resolve sample_env" and "require env = require sample_env"
  shows "readConfigFile env options ''package.json'' prettier_on = Inr Map.empty"
    and "readConfigFile env options (PKG_NAME env @ ''.config.js'') prettier_on =
           Inr [''enablePrettier'' \<mapsto> JBool True]"
    and "readIgnore env options ''.eslintignore'' prettier_on = Inr []"
    and "readIgnore env options ''.stylelintignore'' prettier_on = Inr []"
  using assms
  by (simp_all add: readConfigFile_def readIgnore_def existsSync_def sample_env_def
      prettier_on_def two_sources_def)

lemma no_files_reads:
  assumes "cwd options = ''/proj''" and "PKG_NAME env = ''f2elint''"
    and "path_resolve env = path_resolve sample_env"
  shows "readConfigFile env options ''package.json'' no_files = Inr Map.empty"
    and "readConfigFile env options (PKG_NAME env @ ''.config.js'') no_files = Inr Map.empty"
    and "readIgnore env options ''.eslintignore'' no_files = Inr []"
    and "readIgnore env options ''.stylelintignore'' no_files = Inr []"
  by (simp_all add: readConfigFile_def readIgnore_def existsSync_def no_files_def)

lemma two_sources_read:
  "fst (schedule_format [''a.ts'', ''b.css''] prettier_on) = None"
  by (simp add: readFileSync_def prettier_on_def two_sources_def)

lemma sample_chosen:
  "chosen (ESLINT_FILE_EXT sample_env) [''a.ts'', ''b.css'', ''c.md''] = [''a.ts'']"
  "chosen (STYLELINT_FILE_EXT sample_env) [''a.ts'', ''b.css'', ''c.md''] = [''b.css'']"
  "chosen (MARKDOWN_LINT_FILE_EXT sample_env) [''a.ts'', ''b.css'', ''c.md''] = [''c.md'']"
  "chosen (ESLINT_FILE_EXT sample_env @ STYLELINT_FILE_EXT sample_env)
     [''a.ts'', ''b.css'', ''c.md''] = [''a.ts'', ''b.css'']"
  by (simp_all add: chosen_def sample_env_def path_extname_def basename_part_def)

lemma sample_first_format:
  assumes "lint_files options = Some [''a.ts'', ''b.css'', ''c.md'']"
    and "ESLINT_FILE_EXT env = ESLINT_FILE_EXT sample_env"
    and "STYLELINT_FILE_EXT env = STYLELINT_FILE_EXT sample_env"
  shows "came_through (fst (first_format_pass env options ei si prettier_on))"
  by (simp add: first_format_explicit(1) [OF assms(1)] assms(2,3) sample_chosen(4)
      two_sources_read came_through_def del: schedule_format.simps)

theorem scan_isolates_passes_witness:
  "out_report (scan failing_two fixing_options prettier_on) =
     Inr \<lparr>results = [result_of ''a.ts'' 1 2, result_of ''c.md'' 3 0],
          ScanReport.errorCount = 4, ScanReport.warningCount = 2,
          runErrors = [Thrown ''stylelint'', Thrown ''prettier'']\<rparr> \<and>
   fst (in_turn
          (due_passes failing_two fixing_options Map.empty [''enablePrettier'' \<mapsto> JBool True])
          (linters_start failing_two fixing_options [''enablePrettier'' \<mapsto> JBool True] [] []
             prettier_on)) =
     [Inr [result_of ''a.ts'' 1 2], Inl (Thrown ''stylelint''), Inr [result_of ''c.md'' 3 0],
      Inl (Thrown ''prettier'')] \<and>
   [result_of ''a.ts'' 1 2, result_of ''c.md'' 3 0] =
     concat (map oks (fst (in_turn
       (due_passes failing_two fixing_options Map.empty [''enablePrettier'' \<mapsto> JBool True])
       (linters_start failing_two fixing_options [''enablePrettier'' \<mapsto> JBool True] [] []
          prettier_on)))) \<and>
   [Thrown ''stylelint'', Thrown ''prettier''] =
     concat (map errs (fst (in_turn
       (due_passes failing_two fixing_options Map.empty [''enablePrettier'' \<mapsto> JBool True])
       (linters_start failing_two fixing_options [''enablePrettier'' \<mapsto> JBool True] [] []
          prettier_on))))"
proof -
  have r: "out_report (scan failing_two fixing_options prettier_on) =
     Inr \<lparr>results = [result_of ''a.ts'' 1 2, result_of ''c.md'' 3 0],
          ScanReport.errorCount = 4, ScanReport.warningCount = 2,
          runErrors = [Thrown ''stylelint'', Thrown ''prettier'']\<rparr>"
    by (simp add: run_defs failing_two_def sample_env_def sample_options_def fixing_options_def
        prettier_on_def two_sources_def Let_def)
  have rd: "readConfigFile failing_two fixing_options ''package.json'' prettier_on = Inr Map.empty"
    "readConfigFile failing_two fixing_options (PKG_NAME failing_two @ ''.config.js'')
       prettier_on = Inr [''enablePrettier'' \<mapsto> JBool True]"
    "readIgnore failing_two fixing_options ''.eslintignore'' prettier_on = Inr []"
    "readIgnore failing_two fixing_options ''.stylelintignore'' prettier_on = Inr []"
    by (rule prettier_on_reads;
        simp add: failing_two_def sample_env_def fixing_options_def sample_options_def)+
  have f: "came_through (fst (first_format_pass failing_two fixing_options [] [] prettier_on))"
    by (rule sample_first_format)
      (simp_all add: failing_two_def fixing_options_def sample_options_def)
  have outs: "fst (in_turn
          (due_passes failing_two fixing_options Map.empty [''enablePrettier'' \<mapsto> JBool True])
          (linters_start failing_two fixing_options [''enablePrettier'' \<mapsto> JBool True] [] []
             prettier_on)) =
     [Inr [result_of ''a.ts'' 1 2], Inl (Thrown ''stylelint''), Inr [result_of ''c.md'' 3 0],
      Inl (Thrown ''prettier'')]"
    by (simp add: due_passes_def script_lint_on_def style_lint_on_def markdown_pass_def
        markdown_lint_on_def format_pass_def formatter_on_def and_then_def after_def returns_def
        getLintFiles_def get_prop_def not_false_def path_extname_def basename_part_def
        failing_two_def sample_env_def fixing_options_def sample_options_def)
  from scan_isolates_passes [OF rd f] obtain rep where
    a: "out_report (scan failing_two fixing_options prettier_on) = Inr rep"
    "results rep =
       concat (map oks (fst (in_turn
         (due_passes failing_two fixing_options Map.empty [''enablePrettier'' \<mapsto> JBool True])
         (linters_start failing_two fixing_options [''enablePrettier'' \<mapsto> JBool True] [] []
            prettier_on))))"
    "runErrors rep =
       concat (map errs (fst (in_turn
         (due_passes failing_two fixing_options Map.empty [''enablePrettier'' \<mapsto> JBool True])
         (linters_start failing_two fixing_options [''enablePrettier'' \<mapsto> JBool True] [] []
            prettier_on))))"
    by auto
  from a(1) r have b: "results rep = [result_of ''a.ts'' 1 2, result_of ''c.md'' 3 0]"
    "runErrors rep = [Thrown ''stylelint'', Thrown ''prettier'']"
    by auto
  note x = trans [OF sym, OF b(1) a(2)] trans [OF sym, OF b(2) a(3)]
  from r outs x show ?thesis by (intro conjI)
qed

subsection \<open>The totals\<close>

text \<open>
  C2. The two totals of a returned report are the sums of the error counts and of the
  warning counts of its results: they are computed from the result list when the report
  is built.
\<close>

theorem scan_totals:
  assumes "out_report (scan env options w) = Inr rep"
  shows "ScanReport.errorCount rep = sum_list (map ScanResult.errorCount (results rep)) \<and>
         ScanReport.warningCount rep = sum_list (map ScanResult.warningCount (results rep))"
proof -
  from scan_reaches_passes [OF assms] obtain pkg config ei si where
    s: "scan env options w = scan_passes env options pkg config ei si w" by blast
  with assms scan_passes_shape [of env options pkg config ei si w rep] obtain st where
    "scan env options w = finish env options st" by auto
  with assms have "rep = \<lparr>results = st_results st,
          ScanReport.errorCount = sum_list (map ScanResult.errorCount (st_results st)),
          ScanReport.warningCount = sum_list (map ScanResult.warningCount (st_results st)),
          runErrors = st_runErrors st\<rparr>"
    by (simp add: finish_report)
  then show ?thesis by simp
qed

theorem scan_totals_witness:
  "out_report (scan sample_env sample_options no_files) =
     Inr \<lparr>results = [result_of ''a.ts'' 1 2, result_of ''b.css'' 0 1, result_of ''c.md'' 3 0],
          ScanReport.errorCount = 4, ScanReport.warningCount = 3, runErrors = []\<rparr> \<and>
   sum_list (map ScanResult.errorCount
     [result_of ''a.ts'' 1 2, result_of ''b.css'' 0 1, result_of ''c.md'' 3 0]) = 4 \<and>
   sum_list (map ScanResult.warningCount
     [result_of ''a.ts'' 1 2, result_of ''b.css'' 0 1, result_of ''c.md'' 3 0]) = 3"
proof -
  have r: "out_report (scan sample_env sample_options no_files) =
     Inr \<lparr>results = [result_of ''a.ts'' 1 2, result_of ''b.css'' 0 1, result_of ''c.md'' 3 0],
          ScanReport.errorCount = 4, ScanReport.warningCount = 3, runErrors = []\<rparr>"
    by (simp add: run_defs sample_env_def sample_options_def no_files_def Let_def)
  from scan_totals [OF r] r show ?thesis by simp
qed

subsection \<open>The two formatting passes\<close>

text \<open>
  With \<^verbatim>\<open>fix\<close> set and no \<^verbatim>\<open>enablePrettier\<close> key, line 48 (\<^verbatim>\<open>!== false\<close>) lets the
  first formatting pass run and line 104 (truthiness) skips the second.
\<close>

lemma due_without_prettier_key:
  assumes "fix_flag options" and "config ''enablePrettier'' = None"
  shows "PreFormat \<in> set (due config options) \<and> PostFormat \<notin> set (due config options)"
  using assms by (simp add: due_def get_prop_def not_false_def)

text \<open>
  So a run that returns a report with \<^verbatim>\<open>fix\<close> set and no \<^verbatim>\<open>enablePrettier\<close> key
  entered the first formatting pass and not the second.
\<close>

lemma post_format_skipped:
  assumes "out_report (scan env options w) = Inr rep"
    and "readConfigFile env options (PKG_NAME env @ ''.config.js'') w = Inr config"
    and "fix_flag options" and "config ''enablePrettier'' = None"
  shows "PreFormat \<in> set (map ev_pass (out_trace (scan env options w))) \<and>
         PostFormat \<notin> set (map ev_pass (out_trace (scan env options w)))"
proof -
  from scan_shape [OF assms(1,2)] obtain st where
    "map ev_pass (st_trace st) = due config options" "scan env options w = finish env options st"
    by blast
  with due_without_prettier_key [of options config] assms(3,4) show ?thesis
    by (simp add: finish_trace)
qed

text \<open>
  C3. On the sample project with \<^verbatim>\<open>fix\<close> set and no configuration file, the passes
  entered are the first formatting pass and the three linters: the formatter binary is
  not run. With a configuration that sets \<^verbatim>\<open>enablePrettier\<close> to true it is.
\<close>

theorem post_format_needs_key:
  "fix_flag fixing_options \<and>
   readConfigFile sample_env fixing_options (PKG_NAME sample_env @ ''.config.js'') two_sources =
     Inr Map.empty \<and>
   map ev_pass (out_trace (scan sample_env fixing_options two_sources)) =
     [PreFormat, ScriptLint, StyleLint, MarkdownLint] \<and>
   map ev_pass (out_trace (scan sample_env fixing_options prettier_on)) =
     [PreFormat, ScriptLint, StyleLint, MarkdownLint, PostFormat]"
  by (simp add: run_defs sample_env_def sample_options_def fixing_options_def two_sources_def
      prettier_on_def Let_def)

text \<open>
  The first formatting pass is the only pass outside a \<^verbatim>\<open>try/catch\<close>: when one of
  its files cannot be read, the loop over the files stops and the action rejects before
  any linter is entered.
\<close>

lemma readFileSync_pending: "readFileSync (w\<lparr>pending := js\<rparr>) p = readFileSync w p"
  by (simp add: readFileSync_def)

lemma schedule_format_unreadable:
  assumes "name \<in> set fs" and "readFileSync w name = Inl e"
  shows "\<exists>e'. fst (schedule_format fs w) = Some e'"
  using assms
proof (induction fs arbitrary: w)
  case Nil
  then show ?case by simp
next
  case (Cons f fs)
  show ?case
  proof (cases "readFileSync w f")
    case (Inl x)
    then show ?thesis by simp
  next
    case (Inr body)
    with Cons.prems have "name \<in> set fs" by auto
    moreover have "readFileSync (w\<lparr>pending := pending w @ [FormatJob f body]\<rparr>) name = Inl e"
      using Cons.prems(2) by (simp add: readFileSync_pending)
    ultimately have "\<exists>e'. fst (schedule_format fs (w\<lparr>pending := pending w @ [FormatJob f body]\<rparr>)) = Some e'"
      by (rule Cons.IH)
    with Inr show ?thesis by simp
  qed
qed

lemma first_pass_failure_rejects:
  assumes "fix_flag options" and "not_false (get_prop config ''enablePrettier'')"
    and "lint_files options = Some fs"
    and "name \<in> set fs"
    and "path_extname name \<in> set (ESLINT_FILE_EXT env @ STYLELINT_FILE_EXT env)"
    and "readFileSync w name = Inl e"
  shows "\<exists>e' ev. out_report (scan_passes env options pkg config ei si w) = Inl e' \<and>
           out_trace (scan_passes env options pkg config ei si w) = [ev] \<and> ev_pass ev = PreFormat"
proof -
  let ?fs = "filter (\<lambda>n. path_extname n \<in> set (ESLINT_FILE_EXT env @ STYLELINT_FILE_EXT env)) fs"
  from assms(4,5) have "name \<in> set ?fs" by simp
  from schedule_format_unreadable [OF this assms(6)] obtain e' where
    e': "fst (schedule_format ?fs w) = Some e'" by blast
  then obtain w1 where "schedule_format ?fs w = (Some e', w1)"
    by (cases "schedule_format ?fs w") simp
  with assms(1,2,3) show ?thesis
    by (simp add: scan_passes_def prettier_first_def getLintFiles_def)
qed

text \<open>
  C4. On the sample project with \<^verbatim>\<open>fix\<close> set and a file list whose second entry is
  not on disk: the first file is read and its formatting started, the read of the second
  throws, the third file is skipped, and the action rejects with that error. No linter
  is entered and no report is returned.
\<close>

theorem first_pass_read_failure:
  "scan sample_env stale_options two_sources =
     \<lparr>out_report = Inl (ENOENT ''gone.ts''),
      out_world = two_sources\<lparr>pending := [FormatJob ''a.ts'' ''let a = 1'']\<rparr>,
      out_trace = [\<lparr>ev_pass = PreFormat, ev_glob = None,
                    ev_files = Some (Files [''a.ts'', ''gone.ts'', ''b.css'']),
                    ev_outcome = Inl (ENOENT ''gone.ts'')\<rparr>]\<rparr>"
  by (simp add: run_defs sample_env_def sample_options_def stale_options_def two_sources_def
      Let_def)

subsection \<open>The file sets\<close>

lemma path_extname_samples:
  "path_extname ''a.ts'' = ''.ts''"
  "path_extname ''src/lib.d/index'' = []"
  "path_extname ''src/pkg.tar.gz//'' = ''.gz''"
  "path_extname ''.eslintrc'' = []"
  "path_extname ''notes.'' = ''.''"
  "path_extname ''..'' = []"
  by (simp_all add: path_extname_def basename_part_def)

lemma ext_pattern_sample: "ext_pattern [''.js'', ''.ts'', ''css''] = ''**/*.{js,ts,css}''"
  by (simp add: ext_pattern_def)



subsection \<open>The ignore files\<close>

lemma split_lines_nonempty: "split_lines s \<noteq> []"
  by (induction s rule: split_lines.induct) (auto split: list.splits)

lemma join_push: "join sep ((c # l) # ls) = c # join sep (l # ls)"
  by (cases ls) simp_all

lemma join_open: "ls \<noteq> [] \<Longrightarrow> join sep ([] # ls) = sep @ join sep ls"
  by (cases ls) simp_all

lemma join_split_lines: "join [CHR 0x0A] (split_lines s) = uncr s"
proof (induction s rule: split_lines.induct)
  case 1
  show ?case by simp
next
  case (2 c cs)
  show ?case
  proof (cases "c = CHR 0x0A")
    case True
    with 2 show ?thesis by (simp add: join_open split_lines_nonempty)
  next
    case nl: False
    show ?thesis
    proof (cases "c = CHR 0x0D \<and> cs \<noteq> [] \<and> hd cs = CHR 0x0A")
      case True
      then obtain r where cs: "cs = CHR 0x0A # r" by (cases cs) auto
      with True nl 2 show ?thesis by (simp add: join_open split_lines_nonempty)
    next
      case False
      obtain l ls where sp: "split_lines cs = l # ls"
        using split_lines_nonempty [of cs] by (cases "split_lines cs") auto
      with False nl 2 show ?thesis by (auto simp add: join_push)
    qed
  qed
qed

lemma split_lines_no_newline: "l \<in> set (split_lines s) \<Longrightarrow> CHR 0x0A \<notin> set l"
proof (induction s arbitrary: l rule: split_lines.induct)
  case 1
  then show ?case by simp
next
  case (2 c cs)
  then show ?case
    by (auto split: if_splits list.splits)
qed

lemma set_trim: "set (trim s) \<subseteq> set s"
proof -
  have "set (trim s) \<subseteq> set (dropWhile is_space s)"
    using set_dropWhileD [of _ is_space "rev (dropWhile is_space s)"] by (auto simp add: trim_def)
  also have "\<dots> \<subseteq> set s" using set_dropWhileD [of _ is_space s] by auto
  finally show ?thesis .
qed

lemma last_dropWhile: "dropWhile P xs \<noteq> [] \<Longrightarrow> last (dropWhile P xs) = last xs"
  by (induction xs) (auto split: if_splits)

lemma trim_hd: assumes "trim s \<noteq> []" shows "\<not> is_space (hd (trim s))"
proof -
  let ?t = "dropWhile is_space s"
  from assms have d: "dropWhile is_space (rev ?t) \<noteq> []" by (simp add: trim_def)
  have t: "?t \<noteq> []"
  proof
    assume "?t = []"
    with d show False by simp
  qed
  have "hd (trim s) = last (dropWhile is_space (rev ?t))"
    using d by (simp add: trim_def hd_rev)
  also have "\<dots> = last (rev ?t)" using d by (rule last_dropWhile)
  also have "\<dots> = hd ?t" using t by (simp add: last_rev)
  finally show ?thesis using t hd_dropWhile [of is_space s] by simp
qed

lemma trim_last: assumes "trim s \<noteq> []" shows "\<not> is_space (last (trim s))"
proof -
  let ?t = "dropWhile is_space s"
  from assms have d: "dropWhile is_space (rev ?t) \<noteq> []" by (simp add: trim_def)
  have "last (trim s) = hd (dropWhile is_space (rev ?t))"
    using d by (simp add: trim_def last_rev)
  then show ?thesis using d hd_dropWhile [of is_space "rev ?t"] by simp
qed

lemma trim_trim: "trim (trim s) = trim s"
proof (cases "trim s = []")
  case True
  have "trim [] = []" by (simp add: trim_def)
  with True show ?thesis by simp
next
  case False
  from trim_hd [OF False] have "dropWhile is_space (trim s) = trim s"
    using False by (cases "trim s") auto
  moreover have "dropWhile is_space (rev (trim s)) = rev (trim s)"
    using trim_last [OF False] False by (cases "rev (trim s)") (auto simp add: last_rev hd_rev)
  ultimately show ?thesis by (simp add: trim_def [of "trim s"])
qed

lemma keep_line_iff: "keep_line l = (l \<noteq> [] \<and> hd l \<noteq> CHR ''#'')"
  by (cases l) simp_all

lemma keep_line_eq: "keep_line = (\<lambda>l. l \<noteq> [] \<and> hd l \<noteq> CHR ''#'')"
  by (rule ext) (rule keep_line_iff)

text \<open>
  C8. \<^verbatim>\<open>readIgnore\<close> of a path that does not exist is the empty list, not an error.
  Of a file it is the file's lines, each trimmed, without the empty ones and the ones
  that start with a hash sign, in the order of the file. The result depends on nothing
  but the file at that path, so a second read of the same file gives the same list.
  Every line returned is non-empty, does not start with a hash sign, has no white space
  at either end and holds no line feed.
\<close>

theorem readIgnore_lines:
  "(files w (path_resolve env [cwd options, filepath]) = None \<longrightarrow>
      readIgnore env options filepath w = Inr []) \<and>
   (files w (path_resolve env [cwd options, filepath]) = Some (File content) \<longrightarrow>
      readIgnore env options filepath w =
        Inr (filter (\<lambda>l. l \<noteq> [] \<and> hd l \<noteq> CHR ''#'') (map trim (split_lines content)))) \<and>
   (files w' (path_resolve env [cwd options, filepath]) =
      files w (path_resolve env [cwd options, filepath]) \<longrightarrow>
      readIgnore env options filepath w' = readIgnore env options filepath w) \<and>
   (\<forall>ls. readIgnore env options filepath w = Inr ls \<longrightarrow>
      (\<forall>l \<in> set ls. l \<noteq> [] \<and> hd l \<noteq> CHR ''#'' \<and> trim l = l \<and> CHR 0x0A \<notin> set l))"
proof -
  let ?p = "path_resolve env [cwd options, filepath]"
  have missing: "readIgnore env options filepath w = Inr []" if "files w ?p = None"
    using that by (simp add: readIgnore_def existsSync_def)
  have present: "readIgnore env options filepath w =
        Inr (filter (\<lambda>l. l \<noteq> [] \<and> hd l \<noteq> CHR ''#'') (map trim (split_lines content)))"
    if "files w ?p = Some (File content)"
    using that by (simp add: readIgnore_def existsSync_def readFileSync_def keep_line_eq)
  have again: "readIgnore env options filepath w' = readIgnore env options filepath w"
    if "files w' ?p = files w ?p"
    using that
    by (simp add: readIgnore_def existsSync_def readFileSync_def Let_def cong: if_cong)
  have clean: "l \<noteq> [] \<and> hd l \<noteq> CHR ''#'' \<and> trim l = l \<and> CHR 0x0A \<notin> set l"
    if r: "readIgnore env options filepath w = Inr ls" and l: "l \<in> set ls" for ls l
  proof (cases "files w ?p")
    case None
    with r l show ?thesis by (simp add: readIgnore_def existsSync_def)
  next
    case (Some n)
    with r obtain body where
      ls: "ls = filter keep_line (map trim (split_lines body))"
      by (cases n) (auto simp add: readIgnore_def existsSync_def readFileSync_def)
    with l obtain raw where raw: "raw \<in> set (split_lines body)" "l = trim raw" "keep_line l"
      by auto
    from raw(1) have "CHR 0x0A \<notin> set raw" by (rule split_lines_no_newline)
    with set_trim [of raw] raw(2) have "CHR 0x0A \<notin> set l" by auto
    with raw show ?thesis by (simp add: keep_line_iff trim_trim)
  qed
  from missing present again clean show ?thesis by blast
qed

theorem readIgnore_lines_witness:
  "readIgnore sample_env sample_options ''.eslintignore'' no_files = Inr [] \<and>
   readIgnore sample_env sample_options ''.eslintignore'' ignoring =
     Inr [''node_modules/'', ''dist/'', ''lib''] \<and>
   readIgnore sample_env sample_options ''.eslintignore''
     (ignoring\<lparr>pending := [FormatJob ''a.ts'' []]\<rparr>) =
     readIgnore sample_env sample_options ''.eslintignore'' ignoring"
proof -
  have p: "path_resolve sample_env [cwd sample_options, ''.eslintignore''] = ''/proj/.eslintignore''"
    by (simp add: sample_env_def sample_options_def)
  have a: "files no_files (path_resolve sample_env [cwd sample_options, ''.eslintignore'']) = None"
    by (simp add: no_files_def)
  have b: "files ignoring (path_resolve sample_env [cwd sample_options, ''.eslintignore'']) =
      Some (File ignore_text)"
    unfolding p by (simp add: ignoring_def)
  have c: "files (ignoring\<lparr>pending := [FormatJob ''a.ts'' []]\<rparr>)
             (path_resolve sample_env [cwd sample_options, ''.eslintignore'']) =
           files ignoring (path_resolve sample_env [cwd sample_options, ''.eslintignore''])"
    by simp
  have s: "split_lines ignore_text =
      [''node_modules/'', ''# build output'', [], ''  dist/  '', ''lib'']"
    by (simp add: ignore_text_def)
  have t: "trim ''node_modules/'' = ''node_modules/''" "trim ''# build output'' = ''# build output''"
    "trim [] = []" "trim ''  dist/  '' = ''dist/''" "trim ''lib'' = ''lib''"
    by (simp_all add: trim_def is_space_def)
  from readIgnore_lines [of no_files sample_env sample_options "''.eslintignore''" ignore_text no_files] a
  have 1: "readIgnore sample_env sample_options ''.eslintignore'' no_files = Inr []"
    by blast
  from readIgnore_lines [of ignoring sample_env sample_options "''.eslintignore''" ignore_text
      "ignoring\<lparr>pending := [FormatJob ''a.ts'' []]\<rparr>"] b c
  have 2: "readIgnore sample_env sample_options ''.eslintignore'' ignoring =
     Inr (filter (\<lambda>l. l \<noteq> [] \<and> hd l \<noteq> CHR ''#'') (map trim (split_lines ignore_text)))"
    and 3: "readIgnore sample_env sample_options ''.eslintignore''
       (ignoring\<lparr>pending := [FormatJob ''a.ts'' []]\<rparr>) =
     readIgnore sample_env sample_options ''.eslintignore'' ignoring"
    by blast+
  from 1 2 3 show ?thesis by (simp add: s t)
qed

subsection \<open>An explicit file list\<close>

lemma due_passes_explicit:
  assumes "lint_files options = Some fs"
  shows "due_passes env options pkg config =
     [script_lint_on env options pkg config (Files (chosen (ESLINT_FILE_EXT env) fs))] @
     (if not_false (get_prop config ''enableStylelint'')
      then [style_lint_on env options pkg config (Files (chosen (STYLELINT_FILE_EXT env) fs))]
      else []) @
     (if not_false (get_prop config ''enableMarkdownlint'')
      then [markdown_lint_on env options (Files (chosen (MARKDOWN_LINT_FILE_EXT env) fs))]
      else []) @
     (if truthy (get_prop config ''enablePrettier'') \<and> fix_flag options
      then [formatter_on env (chosen (ESLINT_FILE_EXT env @ STYLELINT_FILE_EXT env) fs)]
      else [])"
  using assms
  by (simp add: due_passes_def markdown_pass_def format_pass_def getLintFiles_chosen)

lemma linters_start_explicit:
  assumes "lint_files options = Some fs"
  shows "linters_start env options config ei si w =
     (if fix_flag options \<and> not_false (get_prop config ''enablePrettier'')
      then snd (schedule_format (chosen (ESLINT_FILE_EXT env @ STYLELINT_FILE_EXT env) fs) w)
      else w)"
  by (simp add: linters_start_def first_format_explicit(2) [OF assms])

text \<open>
  C6. Let a file list be given, let the two configurations and the two ignore files be
  read, and, if the first formatting pass is due, let every entry of the list with a
  script or style extension be readable, so that the action reaches the script linter.
  Then the action returns a report, and each engine was called on exactly the entries
  of the list whose extension (\<^verbatim>\<open>path.extname\<close>) is in the extension list of its pass,
  in the order of the list: the script engine on those with a script extension, the
  style engine, if enabled, on those with a style extension, the markdown engine, if
  enabled, on those with the markdown extension, and the formatter binary, if due, on
  those with a script or style extension. No glob is expanded. The report holds what
  these calls returned and threw.
\<close>

theorem explicit_files_filtered:
  assumes "lint_files options = Some fs"
    and "readConfigFile env options ''package.json'' w = Inr pkg"
    and "readConfigFile env options (PKG_NAME env @ ''.config.js'') w = Inr config"
    and "readIgnore env options ''.eslintignore'' w = Inr ei"
    and "readIgnore env options ''.stylelintignore'' w = Inr si"
    and "fix_flag options \<and> not_false (get_prop config ''enablePrettier'') \<Longrightarrow>
           fst (schedule_format (chosen (ESLINT_FILE_EXT env @ STYLELINT_FILE_EXT env) fs) w) =
             None"
  shows "\<exists>rep outs.
           out_report (scan env options w) = Inr rep \<and>
           outs =
             fst (in_turn
               ([script_lint_on env options pkg config (Files (chosen (ESLINT_FILE_EXT env) fs))] @
                (if not_false (get_prop config ''enableStylelint'')
                 then [style_lint_on env options pkg config
                         (Files (chosen (STYLELINT_FILE_EXT env) fs))]
                 else []) @
                (if not_false (get_prop config ''enableMarkdownlint'')
                 then [markdown_lint_on env options
                         (Files (chosen (MARKDOWN_LINT_FILE_EXT env) fs))]
                 else []) @
                (if truthy (get_prop config ''enablePrettier'') \<and> fix_flag options
                 then [formatter_on env
                         (chosen (ESLINT_FILE_EXT env @ STYLELINT_FILE_EXT env) fs)]
                 else []))
               (if fix_flag options \<and> not_false (get_prop config ''enablePrettier'')
                then snd (schedule_format
                            (chosen (ESLINT_FILE_EXT env @ STYLELINT_FILE_EXT env) fs) w)
                else w)) \<and>
           results rep = concat (map oks outs) \<and>
           runErrors rep = concat (map errs outs)"
proof -
  have "came_through (fst (first_format_pass env options ei si w))"
    if "fix_flag options \<and> not_false (get_prop config ''enablePrettier'')"
    using assms(6) [OF that]
    by (simp add: first_format_explicit(1) [OF assms(1)] came_through_def)
  from scan_outcome [OF assms(2-5) this] obtain rep where
    "out_report (scan env options w) = Inr rep"
    "results rep =
       concat (map oks (fst (in_turn (due_passes env options pkg config)
         (linters_start env options config ei si w))))"
    "runErrors rep =
       concat (map errs (fst (in_turn (due_passes env options pkg config)
         (linters_start env options config ei si w))))"
    by blast
  then show ?thesis
    by (simp add: due_passes_explicit [OF assms(1)] linters_start_explicit [OF assms(1)]
        del: in_turn.simps)
qed

text \<open>
  The scenario of the three files on the sample project: the script engine is called on
  \<^verbatim>\<open>a.ts\<close> only, the style engine on \<^verbatim>\<open>b.css\<close> only, the markdown engine on
  \<^verbatim>\<open>c.md\<close> only. With \<^verbatim>\<open>fix\<close> set and a formatter binary that throws unless its
  arguments are \<^verbatim>\<open>-w a.ts b.css\<close>, nothing is thrown.
\<close>

theorem explicit_files_scenario:
  "lint_files sample_options = Some [''a.ts'', ''b.css'', ''c.md''] \<and>
   chosen (ESLINT_FILE_EXT sample_env) [''a.ts'', ''b.css'', ''c.md''] = [''a.ts''] \<and>
   chosen (STYLELINT_FILE_EXT sample_env) [''a.ts'', ''b.css'', ''c.md''] = [''b.css''] \<and>
   chosen (MARKDOWN_LINT_FILE_EXT sample_env) [''a.ts'', ''b.css'', ''c.md''] = [''c.md''] \<and>
   out_report (scan sample_env sample_options no_files) =
     Inr \<lparr>results = [result_of ''a.ts'' 1 2, result_of ''b.css'' 0 1, result_of ''c.md'' 3 0],
          ScanReport.errorCount = 4, ScanReport.warningCount = 3, runErrors = []\<rparr> \<and>
   [result_of ''a.ts'' 1 2, result_of ''b.css'' 0 1, result_of ''c.md'' 3 0] =
     concat (map oks (fst (in_turn
       [script_lint_on sample_env sample_options Map.empty Map.empty (Files [''a.ts'']),
        style_lint_on sample_env sample_options Map.empty Map.empty (Files [''b.css'']),
        markdown_lint_on sample_env sample_options (Files [''c.md''])]
       no_files))) \<and>
   out_report (scan checking_env fixing_options prettier_on) =
     Inr \<lparr>results = [result_of ''a.ts'' 1 2, result_of ''b.css'' 0 1, result_of ''c.md'' 3 0],
          ScanReport.errorCount = 4, ScanReport.warningCount = 3, runErrors = []\<rparr> \<and>
   [] =
     concat (map errs (fst (in_turn
       [script_lint_on checking_env fixing_options Map.empty [''enablePrettier'' \<mapsto> JBool True]
          (Files [''a.ts'']),
        style_lint_on checking_env fixing_options Map.empty [''enablePrettier'' \<mapsto> JBool True]
          (Files [''b.css'']),
        markdown_lint_on checking_env fixing_options (Files [''c.md'']),
        formatter_on checking_env [''a.ts'', ''b.css'']]
       (snd (schedule_format [''a.ts'', ''b.css''] prettier_on)))))"
proof -
  have h: "lint_files sample_options = Some [''a.ts'', ''b.css'', ''c.md'']"
    "lint_files fixing_options = Some [''a.ts'', ''b.css'', ''c.md'']"
    by (simp_all add: sample_options_def fixing_options_def)
  note ch = sample_chosen
  have ext: "ESLINT_FILE_EXT checking_env = ESLINT_FILE_EXT sample_env"
    "STYLELINT_FILE_EXT checking_env = STYLELINT_FILE_EXT sample_env"
    "MARKDOWN_LINT_FILE_EXT checking_env = MARKDOWN_LINT_FILE_EXT sample_env"
    by (simp_all add: checking_env_def)
  have r: "out_report (scan sample_env sample_options no_files) =
     Inr \<lparr>results = [result_of ''a.ts'' 1 2, result_of ''b.css'' 0 1, result_of ''c.md'' 3 0],
          ScanReport.errorCount = 4, ScanReport.warningCount = 3, runErrors = []\<rparr>"
    by (simp add: run_defs sample_env_def sample_options_def no_files_def Let_def)
  have r': "out_report (scan checking_env fixing_options prettier_on) =
     Inr \<lparr>results = [result_of ''a.ts'' 1 2, result_of ''b.css'' 0 1, result_of ''c.md'' 3 0],
          ScanReport.errorCount = 4, ScanReport.warningCount = 3, runErrors = []\<rparr>"
    by (simp add: run_defs checking_env_def sample_env_def sample_options_def fixing_options_def
        prettier_on_def two_sources_def Let_def)
  have p: "readConfigFile sample_env sample_options ''package.json'' no_files = Inr Map.empty"
    "readConfigFile sample_env sample_options (PKG_NAME sample_env @ ''.config.js'') no_files =
       Inr Map.empty"
    "readIgnore sample_env sample_options ''.eslintignore'' no_files = Inr []"
    "readIgnore sample_env sample_options ''.stylelintignore'' no_files = Inr []"
    by (rule no_files_reads; simp add: sample_env_def sample_options_def)+
  have p': "readConfigFile checking_env fixing_options ''package.json'' prettier_on = Inr Map.empty"
    "readConfigFile checking_env fixing_options (PKG_NAME checking_env @ ''.config.js'')
       prettier_on = Inr [''enablePrettier'' \<mapsto> JBool True]"
    "readIgnore checking_env fixing_options ''.eslintignore'' prettier_on = Inr []"
    "readIgnore checking_env fixing_options ''.stylelintignore'' prettier_on = Inr []"
    by (rule prettier_on_reads;
        simp add: checking_env_def sample_env_def fixing_options_def sample_options_def)+
  have t: "not_false (get_prop Map.empty ''enableStylelint'')"
    "not_false (get_prop Map.empty ''enableMarkdownlint'')"
    "\<not> truthy (get_prop Map.empty ''enablePrettier'')"
    "\<not> fix_flag sample_options"
    by (simp_all add: get_prop_def not_false_def sample_options_def)
  have t': "not_false (get_prop [''enablePrettier'' \<mapsto> JBool True] ''enableStylelint'')"
    "not_false (get_prop [''enablePrettier'' \<mapsto> JBool True] ''enableMarkdownlint'')"
    "not_false (get_prop [''enablePrettier'' \<mapsto> JBool True] ''enablePrettier'')"
    "truthy (get_prop [''enablePrettier'' \<mapsto> JBool True] ''enablePrettier'')"
    "fix_flag fixing_options"
    by (simp_all add: get_prop_def not_false_def fixing_options_def)
  have f: "fst (schedule_format
      (chosen (ESLINT_FILE_EXT checking_env @ STYLELINT_FILE_EXT checking_env)
         [''a.ts'', ''b.css'', ''c.md'']) prettier_on) = None"
    unfolding ext ch by (rule two_sources_read)
  have f0: "fst (schedule_format
      (chosen (ESLINT_FILE_EXT sample_env @ STYLELINT_FILE_EXT sample_env)
         [''a.ts'', ''b.css'', ''c.md'']) no_files) = None"
    if "fix_flag sample_options \<and> not_false (get_prop Map.empty ''enablePrettier'')"
    using that by (simp add: t)
  from explicit_files_filtered [OF h(1) p f0, unfolded ch] obtain rep where
    a1: "out_report (scan sample_env sample_options no_files) = Inr rep"
    and a2: "results rep =
      concat (map oks (fst (in_turn
       [script_lint_on sample_env sample_options Map.empty Map.empty (Files [''a.ts'']),
        style_lint_on sample_env sample_options Map.empty Map.empty (Files [''b.css'']),
        markdown_lint_on sample_env sample_options (Files [''c.md''])]
       no_files)))"
    by (auto simp add: t simp del: in_turn.simps)
  from a1 r have "results rep =
      [result_of ''a.ts'' 1 2, result_of ''b.css'' 0 1, result_of ''c.md'' 3 0]"
    by auto
  note a = trans [OF sym, OF this a2]
  from explicit_files_filtered [OF h(2) p' f, unfolded ext ch] obtain rep' where
    b1: "out_report (scan checking_env fixing_options prettier_on) = Inr rep'"
    and b2: "runErrors rep' =
     concat (map errs (fst (in_turn
       [script_lint_on checking_env fixing_options Map.empty [''enablePrettier'' \<mapsto> JBool True]
          (Files [''a.ts'']),
        style_lint_on checking_env fixing_options Map.empty [''enablePrettier'' \<mapsto> JBool True]
          (Files [''b.css'']),
        markdown_lint_on checking_env fixing_options (Files [''c.md'']),
        formatter_on checking_env [''a.ts'', ''b.css'']]
       (snd (schedule_format [''a.ts'', ''b.css''] prettier_on)))))"
    by (auto simp add: t' simp del: in_turn.simps)
  from b1 r' have "runErrors rep' = []" by auto
  note b = trans [OF sym, OF this b2]
  show ?thesis
    apply (intro conjI)
           apply (rule h(1) ch(1) ch(2) ch(3) r a r' b)+
    done
qed

subsection \<open>The style linter turned off\<close>

lemma with_stylelint_sel:
  "PKG_NAME (with_stylelint env g l f) = PKG_NAME env"
  "ESLINT_FILE_EXT (with_stylelint env g l f) = ESLINT_FILE_EXT env"
  "STYLELINT_FILE_EXT (with_stylelint env g l f) = STYLELINT_FILE_EXT env"
  "MARKDOWN_LINT_FILE_EXT (with_stylelint env g l f) = MARKDOWN_LINT_FILE_EXT env"
  "process_cwd (with_stylelint env g l f) = process_cwd env"
  "dirname (with_stylelint env g l f) = dirname env"
  "path_resolve (with_stylelint env g l f) = path_resolve env"
  "require (with_stylelint env g l f) = require env"
  "glob_sync (with_stylelint env g l f) = glob_sync env"
  "eslint_getLintConfig (with_stylelint env g l f) = eslint_getLintConfig env"
  "eslint_lintFiles (with_stylelint env g l f) = eslint_lintFiles env"
  "eslint_outputFixes (with_stylelint env g l f) = eslint_outputFixes env"
  "eslint_formatResults (with_stylelint env g l f) = eslint_formatResults env"
  "markdownLint_getLintConfig (with_stylelint env g l f) = markdownLint_getLintConfig env"
  "markdownLint_lint (with_stylelint env g l f) = markdownLint_lint env"
  "markdownLint_formatResults (with_stylelint env g l f) = markdownLint_formatResults env"
  "execa_sync (with_stylelint env g l f) = execa_sync env"
  "JSON_stringify (with_stylelint env g l f) = JSON_stringify env"
  by (simp_all add: with_stylelint_def)

lemma with_stylelint_reads:
  "readConfigFile (with_stylelint env g l f) options pth w = readConfigFile env options pth w"
  "readIgnore (with_stylelint env g l f) options pth w = readIgnore env options pth w"
  by (simp_all add: with_stylelint_sel readConfigFile_def readIgnore_def Let_def
      cong: if_cong option.case_cong sum.case_cong prod.case_cong fileset.case_cong)

lemma with_stylelint_files:
  "getLintFiles (with_stylelint env g l f) options ext = getLintFiles env options ext"
  by (simp add: with_stylelint_sel getLintFiles_def Let_def
      cong: if_cong option.case_cong sum.case_cong prod.case_cong fileset.case_cong)

lemma with_stylelint_tries:
  "prettier_first (with_stylelint env g l f) options ei si w = prettier_first env options ei si w"
  "eslint_try (with_stylelint env g l f) options pkg config w = eslint_try env options pkg config w"
  "markdown_try (with_stylelint env g l f) options w = markdown_try env options w"
  "prettier_second (with_stylelint env g l f) options w = prettier_second env options w"
  "finish (with_stylelint env g l f) options st = finish env options st"
  by (simp_all add: prettier_first_def eslint_try_def markdown_try_def markdown_run_def
      prettier_second_def prettier_exec_def finish_def with_stylelint_files with_stylelint_sel Let_def
      cong: if_cong option.case_cong sum.case_cong prod.case_cong fileset.case_cong)

lemma with_stylelint_lint_passes:
  "get_prop config ''enableStylelint'' = JBool False \<Longrightarrow>
   lint_passes (with_stylelint env g l f) options pkg config st = lint_passes env options pkg config st"
  by (simp add: lint_passes_def with_stylelint_tries not_false_def Let_def
      cong: if_cong option.case_cong sum.case_cong prod.case_cong fileset.case_cong)

lemma with_stylelint_scan_passes:
  "get_prop config ''enableStylelint'' = JBool False \<Longrightarrow>
   scan_passes (with_stylelint env g l f) options pkg config ei si w =
   scan_passes env options pkg config ei si w"
  by (simp add: scan_passes_def with_stylelint_tries with_stylelint_lint_passes Let_def
      cong: if_cong option.case_cong sum.case_cong prod.case_cong fileset.case_cong)

lemma due_no_stylelint:
  "get_prop config ''enableStylelint'' = JBool False \<Longrightarrow> StyleLint \<notin> set (due config options)"
  by (simp add: due_def not_false_def)

text \<open>
  C7. When the configuration sets \<^verbatim>\<open>enableStylelint\<close> to false, the style-lint pass is
  not entered, and the whole outcome of the action (report, world and passes) is the
  same whatever the style linter would do, so nothing in it comes from the style linter.
  Every result and every run error of a returned report comes from a pass other than
  the style-lint pass.
\<close>

theorem stylelint_disabled:
  assumes "readConfigFile env options (PKG_NAME env @ ''.config.js'') w = Inr config"
    and "get_prop config ''enableStylelint'' = JBool False"
  shows "StyleLint \<notin> set (map ev_pass (out_trace (scan env options w))) \<and>
         scan (with_stylelint env g l f) options w = scan env options w \<and>
         (\<forall>rep. out_report (scan env options w) = Inr rep \<longrightarrow>
            results rep =
              concat (map ev_results
                (filter (\<lambda>ev. ev_pass ev \<noteq> StyleLint) (out_trace (scan env options w)))) \<and>
            runErrors rep =
              concat (map ev_errors
                (filter (\<lambda>ev. ev_pass ev \<noteq> StyleLint) (out_trace (scan env options w)))))"
proof -
  have none: "StyleLint \<notin> set (map ev_pass (out_trace (scan env options w)))"
  proof (cases "out_report (scan env options w)")
    case (Inr rep)
    from scan_shape [OF Inr assms(1)] obtain st where
      "map ev_pass (st_trace st) = due config options" "scan env options w = finish env options st"
      by blast
    with due_no_stylelint [OF assms(2)] show ?thesis by (simp add: finish_trace)
  next
    case (Inl e)
    from scan_aborted [OF Inl] show ?thesis by auto
  qed
  then have all: "filter (\<lambda>ev. ev_pass ev \<noteq> StyleLint) (out_trace (scan env options w)) =
      out_trace (scan env options w)"
    by (force simp add: filter_id_conv)
  have same: "scan (with_stylelint env g l f) options w = scan env options w"
    using assms
    by (simp add: scan_def with_stylelint_reads with_stylelint_sel with_stylelint_scan_passes
        split: sum.splits)
  have rest: "results rep = concat (map ev_results (out_trace (scan env options w))) \<and>
      runErrors rep = concat (map ev_errors (out_trace (scan env options w)))"
    if r: "out_report (scan env options w) = Inr rep" for rep
  proof -
    from scan_shape [OF r assms(1)] obtain st where st: "tallied st"
      "scan env options w = finish env options st"
      by blast
    from st(2) r have "results rep = st_results st" "runErrors rep = st_runErrors st"
      by (auto simp add: finish_report)
    with st show ?thesis by (simp add: finish_trace tallied_def)
  qed
  from none same rest show ?thesis unfolding all by blast
qed

theorem stylelint_disabled_witness:
  "readConfigFile sample_env sample_options (PKG_NAME sample_env @ ''.config.js'') stylelint_off =
     Inr [''enableStylelint'' \<mapsto> JBool False] \<and>
   get_prop [''enableStylelint'' \<mapsto> JBool False] ''enableStylelint'' = JBool False \<and>
   StyleLint \<notin> set (map ev_pass (out_trace (scan sample_env sample_options stylelint_off))) \<and>
   scan failing_stylelint sample_options stylelint_off = scan sample_env sample_options stylelint_off \<and>
   out_report (scan sample_env sample_options stylelint_off) =
     Inr \<lparr>results = [result_of ''a.ts'' 1 2, result_of ''c.md'' 3 0],
          ScanReport.errorCount = 4, ScanReport.warningCount = 2, runErrors = []\<rparr>"
proof -
  have c: "readConfigFile sample_env sample_options (PKG_NAME sample_env @ ''.config.js'')
      stylelint_off = Inr [''enableStylelint'' \<mapsto> JBool False]"
    by (simp add: readConfigFile_def existsSync_def sample_env_def sample_options_def
        stylelint_off_def)
  have k: "get_prop [''enableStylelint'' \<mapsto> JBool False] ''enableStylelint'' = JBool False"
    by (simp add: get_prop_def)
  have e: "with_stylelint sample_env (stylelint_getLintConfig sample_env)
      (\<lambda>cfg fs w. (Inl (Thrown ''stylelint''), w)) (stylelint_formatResults sample_env) =
      failing_stylelint"
    by (simp add: with_stylelint_def failing_stylelint_def sample_env_def)
  have r: "out_report (scan sample_env sample_options stylelint_off) =
     Inr \<lparr>results = [result_of ''a.ts'' 1 2, result_of ''c.md'' 3 0],
          ScanReport.errorCount = 4, ScanReport.warningCount = 2, runErrors = []\<rparr>"
    by (simp add: run_defs sample_env_def sample_options_def stylelint_off_def Let_def)
  from stylelint_disabled [OF c k, of "stylelint_getLintConfig sample_env"
      "\<lambda>cfg fs w. (Inl (Thrown ''stylelint''), w)" "stylelint_formatResults sample_env"]
  show ?thesis using c k r unfolding e by simp
qed

subsection \<open>The report file\<close>




subsection \<open>The ignore lists and the linters\<close>


lemma same_tree_sym: "same_tree w w' \<Longrightarrow> same_tree w' w"
  by (simp add: same_tree_def)

















end
